theory Spec2Isabelle
  imports Complex_Main
begin

section \<open>Python values\<close>

text \<open>
  The simulator and the inference module pass readings around as Python dictionaries
  from field names to values. The values that occur are None, ints, floats and
  strings; a float (Python's or numpy's) is a \<open>real\<close>: the comparisons, the clamping
  and the arithmetic of the code are read over the reals. A dictionary is an
  association list (insertion ordered, as in Python).
\<close>

datatype pyval = PyNone | PyInt int | PyFloat real | PyStr string

type_synonym pydict = "(string \<times> pyval) list"

datatype error =
    KeyError string
  | ValueError string
  | TypeError
  | RuntimeError string
  | IndexError
  | ZeroDivisionError
  | ModelError

text \<open>Truthiness of a value, as \<open>if v:\<close> and \<open>a or b\<close> test it.\<close>

fun truthy :: "pyval \<Rightarrow> bool" where
  "truthy PyNone = False"
| "truthy (PyInt i) = (i \<noteq> 0)"
| "truthy (PyFloat x) = (x \<noteq> 0)"
| "truthy (PyStr s) = (s \<noteq> [])"

definition py_or :: "pyval \<Rightarrow> pyval \<Rightarrow> pyval" where
  "py_or a b = (if truthy a then a else b)"

text \<open>\<open>d.get(k)\<close>: the value, or None when the key is absent.\<close>

definition dict_get :: "pydict \<Rightarrow> string \<Rightarrow> pyval" where
  "dict_get d k = (case map_of d k of Some v \<Rightarrow> v | None \<Rightarrow> PyNone)"

text \<open>\<open>d.get(k, default)\<close>.\<close>

definition dict_get_default :: "pydict \<Rightarrow> string \<Rightarrow> pyval \<Rightarrow> pyval" where
  "dict_get_default d k dflt = (case map_of d k of Some v \<Rightarrow> v | None \<Rightarrow> dflt)"

text \<open>\<open>str.upper()\<close> and \<open>str.replace(old, new)\<close> for one-character \<open>old\<close>
  and \<open>new\<close>, on ASCII text.\<close>

definition upper_char :: "char \<Rightarrow> char" where
  "upper_char c =
     (case map_of (zip ''abcdefghijklmnopqrstuvwxyz'' ''ABCDEFGHIJKLMNOPQRSTUVWXYZ'') c of
        Some u \<Rightarrow> u
      | None \<Rightarrow> c)"

definition py_upper :: "string \<Rightarrow> string" where
  "py_upper s = map upper_char s"

definition py_replace :: "char \<Rightarrow> char \<Rightarrow> string \<Rightarrow> string" where
  "py_replace old new s = map (\<lambda>c. if c = old then new else c) s"

text \<open>\<open>round(x, n)\<close> rounds half to even at \<open>n\<close> decimals; \<open>int(x)\<close> truncates
  towards zero.\<close>

definition rint :: "real \<Rightarrow> int" where
  "rint x =
     (let f = \<lfloor>x\<rfloor>; d = x - of_int f
      in if d < 1 / 2 then f else if 1 / 2 < d then f + 1 else if even f then f else f + 1)"

definition py_round :: "real \<Rightarrow> nat \<Rightarrow> real" where
  "py_round x n = of_int (rint (x * 10 ^ n)) / 10 ^ n"

definition py_int :: "real \<Rightarrow> int" where
  "py_int x = (if 0 \<le> x then \<lfloor>x\<rfloor> else \<lceil>x\<rceil>)"

section \<open>config.py\<close>

definition NUM_MACHINES :: nat where
  "NUM_MACHINES = 5"

definition FAILURE_THRESHOLD :: real where
  "FAILURE_THRESHOLD = 0.6"

definition HEALTH_STATUS :: "(string \<times> real \<times> real) list" where
  "HEALTH_STATUS =
     [(''healthy'', (0, 0.3)),
      (''risk'', (0.3, 0.6)),
      (''maintenance_required'', (0.6, 1.0))]"

text \<open>The numeric entries of \<open>SENSOR_RANGES\<close>; its \<open>'Type'\<close> entry, a list of
  strings, is \<open>SENSOR_TYPES\<close>.\<close>

definition SENSOR_RANGES :: "(string \<times> real \<times> real) list" where
  "SENSOR_RANGES =
     [(''Air temperature [K]'', (295, 304)),
      (''Process temperature [K]'', (305, 313)),
      (''Rotational speed [rpm]'', (1200, 2500)),
      (''Torque [Nm]'', (15, 70)),
      (''Tool wear [min]'', (0, 250))]"

definition SENSOR_TYPES :: "string list" where
  "SENSOR_TYPES = [''L'', ''M'', ''H'']"

section \<open>model_inference.py: the health band\<close>

text \<open>\<open>ModelInference._get_health_status\<close>: the first configured interval
  \<open>min_prob <= p < max_prob\<close> gives the band, in the dictionary's order; the
  fall-through after the loop is the literal \<open>"MAINTENANCE REQUIRED"\<close>.\<close>

fun get_health_status_loop :: "(string \<times> real \<times> real) list \<Rightarrow> real \<Rightarrow> string" where
  "get_health_status_loop [] failure_probability = ''MAINTENANCE REQUIRED''"
| "get_health_status_loop ((status, min_prob, max_prob) # rest) failure_probability =
     (if min_prob \<le> failure_probability \<and> failure_probability < max_prob
      then py_replace (CHR ''_'') (CHR '' '') (py_upper status)
      else get_health_status_loop rest failure_probability)"

definition get_health_status :: "real \<Rightarrow> string" where
  "get_health_status failure_probability =
     get_health_status_loop HEALTH_STATUS failure_probability"

text \<open>Whether some configured interval contains the probability.\<close>

definition band_matches :: "real \<Rightarrow> bool" where
  "band_matches p = list_ex (\<lambda>(status, min_prob, max_prob). min_prob \<le> p \<and> p < max_prob) HEALTH_STATUS"

section \<open>data_simulator.py: one machine\<close>

text \<open>
  The module \<open>random\<close> and the clock are inputs of the model. \<open>random.uniform(a, b)\<close>
  is \<open>a + (b - a) * random()\<close> for a draw \<open>random()\<close> in \<open>[0, 1)\<close>;
  \<open>random.gauss(mu, sigma)\<close> is \<open>mu + z * sigma\<close> for a standard normal variate
  \<open>z\<close>; \<open>random.choice(seq)\<close> is \<open>seq[k]\<close> for a drawn index \<open>k < len(seq)\<close>.
  Each call of a method receives the draws it consumes as a record.
\<close>

definition uniform :: "real \<Rightarrow> real \<Rightarrow> real \<Rightarrow> real" where
  "uniform a b r = a + (b - a) * r"

definition gauss :: "real \<Rightarrow> real \<Rightarrow> real \<Rightarrow> real" where
  "gauss mu sigma z = mu + z * sigma"

definition choice :: "'a list \<Rightarrow> nat \<Rightarrow> 'a" where
  "choice xs k = xs ! k"

definition unit_draw :: "real \<Rightarrow> bool" where
  "unit_draw r = (0 \<le> r \<and> r < 1)"

text \<open>\<open>np.clip(x, lo, hi)\<close>, and the range of a sensor in the configuration (the
  keys the simulator looks up are the five literal keys of the table).\<close>

definition np_clip :: "real \<Rightarrow> real \<times> real \<Rightarrow> real" where
  "np_clip x bounds = min (max x (fst bounds)) (snd bounds)"

definition sensor_range :: "string \<Rightarrow> real \<times> real" where
  "sensor_range key = the (map_of SENSOR_RANGES key)"

record MachineSimulator =
  machine_id :: string
  machine_type :: string
  tool_wear :: real
  air_temp_baseline :: real
  process_temp_baseline :: real
  speed_baseline :: real
  torque_baseline :: real
  degradation_rate :: real
  operating_mode :: string
  cycles :: nat

text \<open>The draws of \<open>MachineSimulator.__init__\<close>, in the order the constructor
  makes them.\<close>

record init_draws =
  k_type :: nat
  i_tool_wear :: real
  i_air_temp :: real
  i_process_temp :: real
  i_speed :: real
  i_torque :: real
  i_degradation :: real

definition valid_init_draws :: "init_draws \<Rightarrow> bool" where
  "valid_init_draws d =
     (k_type d < length SENSOR_TYPES \<and> unit_draw (i_tool_wear d) \<and> unit_draw (i_air_temp d) \<and>
      unit_draw (i_process_temp d) \<and> unit_draw (i_speed d) \<and> unit_draw (i_torque d) \<and>
      unit_draw (i_degradation d))"

definition new_machine ::
  "string \<Rightarrow> string \<Rightarrow> real \<Rightarrow> real \<Rightarrow> real \<Rightarrow> real \<Rightarrow> real \<Rightarrow> real \<Rightarrow> MachineSimulator" where
  "new_machine mid mtype wear air process speed torque rate =
     \<lparr>machine_id = mid, machine_type = mtype, tool_wear = wear, air_temp_baseline = air,
      process_temp_baseline = process, speed_baseline = speed, torque_baseline = torque,
      degradation_rate = rate, operating_mode = ''normal'', cycles = 0\<rparr>"

definition MachineSimulator_init ::
  "string \<Rightarrow> string option \<Rightarrow> string \<Rightarrow> init_draws \<Rightarrow> MachineSimulator" where
  "MachineSimulator_init mid mtype initial_condition d =
     (let ty = (case mtype of
                  None \<Rightarrow> choice SENSOR_TYPES (k_type d)
                | Some s \<Rightarrow> if s \<noteq> [] then s else choice SENSOR_TYPES (k_type d))
      in if initial_condition = ''healthy'' then
           new_machine mid ty
             (uniform 5 45 (i_tool_wear d))
             (uniform 296 299.5 (i_air_temp d))
             (uniform 306 309.5 (i_process_temp d))
             (uniform 1600 2100 (i_speed d))
             (uniform 22 38 (i_torque d))
             (uniform 0.15 0.3 (i_degradation d))
         else if initial_condition = ''risk'' then
           new_machine mid ty
             (uniform 165 185 (i_tool_wear d))
             (uniform 301 303 (i_air_temp d))
             (uniform 311.2 312.8 (i_process_temp d))
             (uniform 1240 1300 (i_speed d))
             (uniform 63 68 (i_torque d))
             (uniform 0.2 0.35 (i_degradation d))
         else if initial_condition = ''maintenance'' then
           new_machine mid ty
             (uniform 180 220 (i_tool_wear d))
             (uniform 301 303.5 (i_air_temp d))
             (uniform 311 313 (i_process_temp d))
             (uniform 1220 1320 (i_speed d))
             (uniform 62 70 (i_torque d))
             (uniform 0.2 0.35 (i_degradation d))
         else
           new_machine mid ty
             (uniform 5 40 (i_tool_wear d))
             (uniform 296 300 (i_air_temp d))
             (uniform 306 310 (i_process_temp d))
             (uniform 1500 2000 (i_speed d))
             (uniform 25 40 (i_torque d))
             (uniform 0.2 0.4 (i_degradation d)))"

text \<open>The draws and the clock reading of one \<open>generate_sensor_data\<close> call. The
  torque bump is drawn only when the wear factor exceeds 0.6, the three drifts only
  on every 100th cycle; \<open>now\<close> is what \<open>datetime.now().isoformat()\<close> returns
  in that call.\<close>

record gen_draws =
  g_wear :: real
  z_air :: real
  g_process :: real
  z_process :: real
  z_speed :: real
  g_torque_bump :: real
  z_torque :: real
  g_drift_air :: real
  g_drift_speed :: real
  g_drift_torque :: real
  now :: string

definition valid_gen_draws :: "gen_draws \<Rightarrow> bool" where
  "valid_gen_draws g =
     (unit_draw (g_wear g) \<and> unit_draw (g_process g) \<and> unit_draw (g_torque_bump g) \<and>
      unit_draw (g_drift_air g) \<and> unit_draw (g_drift_speed g) \<and> unit_draw (g_drift_torque g))"

definition generate_sensor_data :: "gen_draws \<Rightarrow> MachineSimulator \<Rightarrow> pydict \<times> MachineSimulator" where
  "generate_sensor_data g m =
     (let cycles' = cycles m + 1;
          wear_increment = degradation_rate m * uniform 0.1 0.3 (g_wear g);
          tool_wear' = min (tool_wear m + wear_increment) 250;
          air_temp_noise = gauss 0 0.2 (z_air g);
          air_temp = np_clip (air_temp_baseline m + air_temp_noise)
                       (sensor_range ''Air temperature [K]'');
          wear_factor = tool_wear' / 250.0;
          process_temp_base = air_temp + uniform 8 12 (g_process g);
          process_temp_noise = gauss 0 0.3 (z_process g) + wear_factor * 1.0;
          process_temp = np_clip (process_temp_base + process_temp_noise)
                           (sensor_range ''Process temperature [K]'');
          speed_noise = gauss 0 20 (z_speed g);
          speed = np_clip (speed_baseline m + speed_noise)
                    (sensor_range ''Rotational speed [rpm]'');
          base_torque = (if 0.6 < wear_factor
                         then torque_baseline m + uniform 0 3 (g_torque_bump g)
                         else torque_baseline m);
          torque_noise = gauss 0 1.5 (z_torque g);
          torque = np_clip (base_torque + torque_noise) (sensor_range ''Torque [Nm]'');
          drift = (cycles' mod 100 = 0);
          m' = m\<lparr>cycles := cycles',
                 tool_wear := tool_wear',
                 air_temp_baseline :=
                   (if drift then air_temp_baseline m + uniform (- 0.1) 0.1 (g_drift_air g)
                    else air_temp_baseline m),
                 speed_baseline :=
                   (if drift then speed_baseline m + uniform (- 5) 5 (g_drift_speed g)
                    else speed_baseline m),
                 torque_baseline :=
                   (if drift then torque_baseline m + uniform (- 0.5) 0.5 (g_drift_torque g)
                    else torque_baseline m)\<rparr>
      in ([(''machine_id'', PyStr (machine_id m)),
           (''Type'', PyStr (machine_type m)),
           (''Air temperature [K]'', PyFloat (py_round air_temp 1)),
           (''Process temperature [K]'', PyFloat (py_round process_temp 1)),
           (''Rotational speed [rpm]'', PyInt (py_int speed)),
           (''Torque [Nm]'', PyFloat (py_round torque 1)),
           (''Tool wear [min]'', PyInt (py_int tool_wear')),
           (''timestamp'', PyStr (now g)),
           (''operating_mode'', PyStr (operating_mode m)),
           (''cycles'', PyInt (int cycles'))],
          m'))"

record reset_draws =
  s_tool_wear :: real
  s_degradation :: real

definition valid_reset_draws :: "reset_draws \<Rightarrow> bool" where
  "valid_reset_draws s = (unit_draw (s_tool_wear s) \<and> unit_draw (s_degradation s))"

text \<open>\<open>reset_tool_wear\<close>; the line it prints is not part of the state.\<close>

definition reset_tool_wear :: "reset_draws \<Rightarrow> MachineSimulator \<Rightarrow> MachineSimulator" where
  "reset_tool_wear s m =
     m\<lparr>tool_wear := uniform 0 20 (s_tool_wear s),
       degradation_rate := uniform 0.2 0.5 (s_degradation s)\<rparr>"

text \<open>A history of calls on one machine: the readings it returns, in order, and
  the machine afterwards.\<close>

datatype machine_call = Generate gen_draws | ResetWear reset_draws

fun valid_call :: "machine_call \<Rightarrow> bool" where
  "valid_call (Generate g) = valid_gen_draws g"
| "valid_call (ResetWear s) = valid_reset_draws s"

fun run_calls :: "machine_call list \<Rightarrow> MachineSimulator \<Rightarrow> pydict list \<times> MachineSimulator" where
  "run_calls [] m = ([], m)"
| "run_calls (Generate g # cs) m =
     (let (rd, m') = generate_sensor_data g m;
          (rds, m'') = run_calls cs m'
      in (rd # rds, m''))"
| "run_calls (ResetWear s # cs) m = run_calls cs (reset_tool_wear s m)"

text \<open>The sensor value of a reading, as a real, and whether it lies in a range.\<close>

definition num_field :: "pydict \<Rightarrow> string \<Rightarrow> real option" where
  "num_field d k =
     (case map_of d k of
        Some (PyInt i) \<Rightarrow> Some (of_int i)
      | Some (PyFloat x) \<Rightarrow> Some x
      | _ \<Rightarrow> None)"

definition field_within :: "pydict \<Rightarrow> string \<Rightarrow> real \<Rightarrow> real \<Rightarrow> bool" where
  "field_within d k lo hi = (case num_field d k of Some v \<Rightarrow> lo \<le> v \<and> v \<le> hi | None \<Rightarrow> False)"

definition reading_in_ranges :: "pydict \<Rightarrow> bool" where
  "reading_in_ranges rd =
     (field_within rd ''Air temperature [K]'' 295 304 \<and>
      field_within rd ''Process temperature [K]'' 305 313 \<and>
      field_within rd ''Rotational speed [rpm]'' 1200 2500 \<and>
      field_within rd ''Torque [Nm]'' 15 70 \<and>
      field_within rd ''Tool wear [min]'' 0 250)"

section \<open>data_simulator.py: the fleet\<close>

text \<open>\<open>str(n)\<close> for a natural number and \<open>str.zfill(width)\<close>.\<close>

definition digit_char :: "nat \<Rightarrow> char" where
  "digit_char n = ''0123456789'' ! n"

function str_nat :: "nat \<Rightarrow> string" where
  "str_nat n = (if n < 10 then [digit_char n] else str_nat (n div 10) @ [digit_char (n mod 10)])"
  by pat_completeness auto
termination
  by (relation "measure (\<lambda>n. n)") auto

declare str_nat.simps [simp del]

definition zfill :: "string \<Rightarrow> nat \<Rightarrow> string" where
  "zfill s width =
     (case s of
        [] \<Rightarrow> replicate width (CHR ''0'')
      | c # rest \<Rightarrow>
          if c = CHR ''+'' \<or> c = CHR ''-''
          then c # replicate (width - length s) (CHR ''0'') @ rest
          else replicate (width - length s) (CHR ''0'') @ s)"

record DataSimulator =
  num_machines :: int
  machines :: "MachineSimulator list"

text \<open>The \<open>while\<close> loop of the constructor that pads the list of conditions.\<close>

function pad_conditions :: "int \<Rightarrow> string list \<Rightarrow> string list" where
  "pad_conditions num conditions =
     (if int (length conditions) < num then pad_conditions num (conditions @ [''healthy''])
      else conditions)"
  by pat_completeness auto
termination
  by (relation "measure (\<lambda>(num, conditions). nat (num - int (length conditions)))") auto

declare pad_conditions.simps [simp del]

text \<open>\<open>DataSimulator.__init__\<close>: \<open>ks i\<close> is the index \<open>random.choice\<close> draws for
  the type of machine \<open>i\<close>, \<open>ds i\<close> are the draws of its constructor. The lines
  printed are not part of the state.\<close>

definition DataSimulator_init ::
  "int option \<Rightarrow> (nat \<Rightarrow> nat) \<Rightarrow> (nat \<Rightarrow> init_draws) \<Rightarrow> DataSimulator" where
  "DataSimulator_init n ks ds =
     (let num = (case n of None \<Rightarrow> int NUM_MACHINES
                 | Some k \<Rightarrow> if k \<noteq> 0 then k else int NUM_MACHINES);
          conditions = pad_conditions num
            [''healthy'', ''healthy'', ''healthy'', ''risk'', ''maintenance'']
      in \<lparr>num_machines = num,
          machines =
            map (\<lambda>i. MachineSimulator_init
                        (''M'' @ zfill (str_nat (i + 1)) 3)
                        (Some (choice SENSOR_TYPES (ks i)))
                        (if i < length conditions then conditions ! i else ''healthy'')
                        (ds i))
              [0..<nat num]\<rparr>)"

text \<open>\<open>next((m for m in self.machines if m.machine_id == machine_id), None)\<close>: the
  position of the first machine with that id.\<close>

fun find_machine :: "MachineSimulator list \<Rightarrow> string \<Rightarrow> nat option" where
  "find_machine [] mid = None"
| "find_machine (m # ms) mid =
     (if machine_id m = mid then Some 0 else map_option Suc (find_machine ms mid))"

text \<open>What \<open>generate_data\<close> returns and \<open>predict\<close> accepts: one dictionary or a
  list of dictionaries.\<close>

datatype py_data = Dict pydict | DictList "pydict list"

text \<open>The list comprehension over the fleet: machine \<open>i\<close> consumes the draws
  \<open>gs i\<close>.\<close>

fun generate_all :: "(nat \<Rightarrow> gen_draws) \<Rightarrow> nat \<Rightarrow> MachineSimulator list \<Rightarrow>
    pydict list \<times> MachineSimulator list" where
  "generate_all gs i [] = ([], [])"
| "generate_all gs i (m # ms) =
     (let (rd, m') = generate_sensor_data (gs i) m;
          (rds, ms') = generate_all gs (Suc i) ms
      in (rd # rds, m' # ms'))"

text \<open>The \<open>else\<close> branch of \<open>generate_data\<close>: one reading per machine, in
  the order of the fleet.\<close>

definition generate_fleet ::
  "(nat \<Rightarrow> gen_draws) \<Rightarrow> DataSimulator \<Rightarrow> (error + py_data) \<times> DataSimulator" where
  "generate_fleet gs sim =
     (let (rds, ms') = generate_all gs 0 (machines sim)
      in (Inr (DictList rds), sim\<lparr>machines := ms'\<rparr>))"

text \<open>\<open>DataSimulator.generate_data(machine_id=None)\<close>. The argument is None or a
  string; \<open>if machine_id:\<close> is the truth value of that argument, false for None
  and for the empty string.\<close>

definition generate_data ::
  "(nat \<Rightarrow> gen_draws) \<Rightarrow> string option \<Rightarrow> DataSimulator \<Rightarrow> (error + py_data) \<times> DataSimulator" where
  "generate_data gs mid sim =
     (case mid of
        None \<Rightarrow> generate_fleet gs sim
      | Some s \<Rightarrow>
          if s \<noteq> [] then
            (case find_machine (machines sim) s of
               Some i \<Rightarrow>
                 (let (rd, m') = generate_sensor_data (gs 0) (machines sim ! i)
                  in (Inr (Dict rd), sim\<lparr>machines := (machines sim)[i := m']\<rparr>))
             | None \<Rightarrow> (Inl (ValueError (''Machine '' @ s @ '' not found'')), sim))
          else generate_fleet gs sim)"

definition perform_maintenance :: "reset_draws \<Rightarrow> string \<Rightarrow> DataSimulator \<Rightarrow> bool \<times> DataSimulator" where
  "perform_maintenance s mid sim =
     (case find_machine (machines sim) mid of
        Some i \<Rightarrow> (True, sim\<lparr>machines := (machines sim)[i := reset_tool_wear s (machines sim ! i)]\<rparr>)
      | None \<Rightarrow> (False, sim))"

section \<open>model_inference.py: preprocessing and prediction\<close>

text \<open>Subtraction, multiplication and true division of Python values. Anything but
  numbers raises TypeError, except a string times an int, which repeats the string.\<close>

fun py_sub :: "pyval \<Rightarrow> pyval \<Rightarrow> error + pyval" where
  "py_sub (PyInt a) (PyInt b) = Inr (PyInt (a - b))"
| "py_sub (PyInt a) (PyFloat b) = Inr (PyFloat (of_int a - b))"
| "py_sub (PyFloat a) (PyInt b) = Inr (PyFloat (a - of_int b))"
| "py_sub (PyFloat a) (PyFloat b) = Inr (PyFloat (a - b))"
| "py_sub _ _ = Inl TypeError"

fun py_mul :: "pyval \<Rightarrow> pyval \<Rightarrow> error + pyval" where
  "py_mul (PyInt a) (PyInt b) = Inr (PyInt (a * b))"
| "py_mul (PyInt a) (PyFloat b) = Inr (PyFloat (of_int a * b))"
| "py_mul (PyFloat a) (PyInt b) = Inr (PyFloat (a * of_int b))"
| "py_mul (PyFloat a) (PyFloat b) = Inr (PyFloat (a * b))"
| "py_mul (PyStr s) (PyInt n) = Inr (PyStr (concat (replicate (nat n) s)))"
| "py_mul (PyInt n) (PyStr s) = Inr (PyStr (concat (replicate (nat n) s)))"
| "py_mul _ _ = Inl TypeError"

fun py_truediv :: "pyval \<Rightarrow> pyval \<Rightarrow> error + pyval" where
  "py_truediv (PyInt a) (PyInt b) =
     (if b = 0 then Inl ZeroDivisionError else Inr (PyFloat (of_int a / of_int b)))"
| "py_truediv (PyInt a) (PyFloat b) =
     (if b = 0 then Inl ZeroDivisionError else Inr (PyFloat (of_int a / b)))"
| "py_truediv (PyFloat a) (PyInt b) =
     (if b = 0 then Inl ZeroDivisionError else Inr (PyFloat (a / of_int b)))"
| "py_truediv (PyFloat a) (PyFloat b) =
     (if b = 0 then Inl ZeroDivisionError else Inr (PyFloat (a / b)))"
| "py_truediv _ _ = Inl TypeError"

text \<open>Sequencing of fallible steps: the first exception ends the computation.\<close>

definition and_then :: "error + 'a \<Rightarrow> ('a \<Rightarrow> error + 'b) \<Rightarrow> error + 'b" where
  "and_then r f = (case r of Inl e \<Rightarrow> Inl e | Inr x \<Rightarrow> f x)"

text \<open>
  The loaded artifacts. The pickled encoder and classifier are not part of the
  sources, so they are parameters: \<open>encoder_transform v\<close> is
  \<open>label_encoder.transform([v])[0]\<close> (an error for a label outside the fitted
  vocabulary), \<open>model_predict\<close> and \<open>model_predict_proba\<close> are the classifier's
  \<open>predict(features)[0]\<close> and \<open>predict_proba(features)[0]\<close>, the latter as the
  pair (probability of class 0, probability of class 1).
\<close>

record ModelInference =
  model_loaded :: bool
  encoder_transform :: "pyval \<Rightarrow> error + int"
  feature_columns :: "string list"
  model_predict :: "pyval list \<Rightarrow> error + int"
  model_predict_proba :: "pyval list \<Rightarrow> error + real \<times> real"

text \<open>\<open>df[self.feature_columns]\<close> on the one-row frame of the features, and its
  \<open>.values\<close> row: the values of the named columns, in the order of the list. A name
  that is no column raises KeyError.\<close>

fun select_columns :: "string list \<Rightarrow> pydict \<Rightarrow> error + pyval list" where
  "select_columns [] features = Inr []"
| "select_columns (c # cs) features =
     (case map_of features c of
        None \<Rightarrow> Inl (KeyError c)
      | Some v \<Rightarrow> and_then (select_columns cs features) (\<lambda>vs. Inr (v # vs)))"

text \<open>The dictionary \<open>features\<close> that \<open>preprocess_input\<close> builds.\<close>

definition build_features :: "ModelInference \<Rightarrow> pydict \<Rightarrow> error + pydict" where
  "build_features mi data =
     (case map_of data ''Type'' of
        None \<Rightarrow> Inl (KeyError ''Type'')
      | Some ty \<Rightarrow>
          and_then (encoder_transform mi ty) (\<lambda>type_encoded.
            let air_temp = py_or (dict_get data ''Air temperature [K]'')
                             (dict_get data ''Air_temperature_K'');
                process_temp = py_or (dict_get data ''Process temperature [K]'')
                                 (dict_get data ''Process_temperature_K'');
                speed = py_or (dict_get data ''Rotational speed [rpm]'')
                          (dict_get data ''Rotational_speed_rpm'');
                torque = py_or (dict_get data ''Torque [Nm]'') (dict_get data ''Torque_Nm'');
                tool_wear_v = py_or (dict_get data ''Tool wear [min]'')
                                (dict_get data ''Tool_wear_min'')
            in and_then (py_sub process_temp air_temp) (\<lambda>temp_diff.
               and_then (py_mul torque speed) (\<lambda>product.
               and_then (py_truediv product (PyInt 1000)) (\<lambda>power.
                 Inr [(''Air_temperature_K'', air_temp),
                      (''Process_temperature_K'', process_temp),
                      (''Rotational_speed_rpm'', speed),
                      (''Torque_Nm'', torque),
                      (''Tool_wear_min'', tool_wear_v),
                      (''Type_encoded'', PyInt type_encoded),
                      (''Temp_diff'', temp_diff),
                      (''Power'', power)])))))"

definition preprocess_input :: "ModelInference \<Rightarrow> pydict \<Rightarrow> error + pyval list" where
  "preprocess_input mi data =
     and_then (build_features mi data) (select_columns (feature_columns mi))"

record PredictionResult =
  res_machine_id :: pyval
  res_prediction :: int
  res_failure_probability :: real
  res_normal_probability :: real
  res_health_status :: string
  res_sensor_data :: pydict
  res_alert :: bool

text \<open>The cleaning loop turns numpy scalars into Python floats; both are
  \<open>PyFloat\<close> here, every other value is kept.\<close>

fun clean_value :: "pyval \<Rightarrow> pyval" where
  "clean_value (PyFloat x) = PyFloat x"
| "clean_value v = v"

text \<open>The body of the loop of \<open>predict\<close>, for one dictionary.\<close>

definition predict_one :: "ModelInference \<Rightarrow> pydict \<Rightarrow> error + PredictionResult" where
  "predict_one mi data =
     and_then (preprocess_input mi data) (\<lambda>features.
     and_then (model_predict mi features) (\<lambda>prediction.
     and_then (model_predict_proba mi features) (\<lambda>probability.
       let failure_prob = snd probability;
           health_status = get_health_status failure_prob;
           clean_sensor_data = map (\<lambda>(key, v). (key, clean_value v)) data
       in Inr \<lparr>res_machine_id = dict_get_default data ''machine_id'' (PyStr ''Unknown''),
               res_prediction = prediction,
               res_failure_probability = py_round failure_prob 4,
               res_normal_probability = py_round (fst probability) 4,
               res_health_status = health_status,
               res_sensor_data = clean_sensor_data,
               res_alert = (FAILURE_THRESHOLD \<le> failure_prob)\<rparr>)))"

fun predict_loop :: "ModelInference \<Rightarrow> pydict list \<Rightarrow> error + PredictionResult list" where
  "predict_loop mi [] = Inr []"
| "predict_loop mi (data # rest) =
     and_then (predict_one mi data) (\<lambda>result.
     and_then (predict_loop mi rest) (\<lambda>results. Inr (result # results)))"

datatype predict_output = Result PredictionResult | Results "PredictionResult list"

text \<open>\<open>ModelInference.predict\<close>. The last line is
  \<open>predictions if len(predictions) > 1 else predictions[0]\<close>; indexing the empty
  list raises IndexError.\<close>

definition predict :: "ModelInference \<Rightarrow> py_data \<Rightarrow> error + predict_output" where
  "predict mi input =
     (if \<not> model_loaded mi then Inl (RuntimeError ''Model not loaded. Call load_model() first.'')
      else
        let sensor_data = (case input of Dict d \<Rightarrow> [d] | DictList ds \<Rightarrow> ds)
        in and_then (predict_loop mi sensor_data) (\<lambda>predictions.
             if 1 < length predictions then Inr (Results predictions)
             else (case predictions of
                     [] \<Rightarrow> Inl IndexError
                   | p # rest \<Rightarrow> Inr (Result p))))"

section \<open>monitoring_service.py\<close>

record MonitoringService =
  simulator :: DataSimulator
  model_inference :: ModelInference

text \<open>An exception of \<open>predict\<close> leaves the simulator as the generation left
  it, so the service after the call is returned beside the result.\<close>

definition get_real_time_predictions ::
  "(nat \<Rightarrow> gen_draws) \<Rightarrow> MonitoringService \<Rightarrow> (error + predict_output) \<times> MonitoringService" where
  "get_real_time_predictions gs svc =
     (case generate_data gs None (simulator svc) of
        (Inl e, sim') \<Rightarrow> (Inl e, svc\<lparr>simulator := sim'\<rparr>)
      | (Inr data, sim') \<Rightarrow> (predict (model_inference svc) data, svc\<lparr>simulator := sim'\<rparr>))"

definition get_machine_prediction ::
  "(nat \<Rightarrow> gen_draws) \<Rightarrow> string \<Rightarrow> MonitoringService \<Rightarrow> (error + predict_output) \<times> MonitoringService" where
  "get_machine_prediction gs mid svc =
     (case generate_data gs (Some mid) (simulator svc) of
        (Inl e, sim') \<Rightarrow> (Inl e, svc\<lparr>simulator := sim'\<rparr>)
      | (Inr data, sim') \<Rightarrow> (predict (model_inference svc) data, svc\<lparr>simulator := sim'\<rparr>))"

section \<open>Invariant and example draws\<close>

text \<open>What every reachable machine satisfies: the wear accumulator is within
  \<open>[0, 250]\<close> and the degradation rate is not negative.\<close>

definition machine_ok :: "MachineSimulator \<Rightarrow> bool" where
  "machine_ok m = (0 \<le> tool_wear m \<and> tool_wear m \<le> 250 \<and> 0 \<le> degradation_rate m)"

text \<open>Concrete draws, used to run the definitions on an example.\<close>

definition init_draws_example :: init_draws where
  "init_draws_example =
     \<lparr>k_type = 0, i_tool_wear = 0, i_air_temp = 1 / 2, i_process_temp = 1 / 2,
      i_speed = 1 / 2, i_torque = 1 / 2, i_degradation = 1 / 2\<rparr>"

definition gen_draws_example :: "string \<Rightarrow> gen_draws" where
  "gen_draws_example t =
     \<lparr>g_wear = 1 / 2, z_air = 0, g_process = 1 / 2, z_process = 0, z_speed = 0,
      g_torque_bump = 1 / 2, z_torque = 0, g_drift_air = 1 / 2, g_drift_speed = 1 / 2,
      g_drift_torque = 1 / 2, now = t\<rparr>"

definition reset_draws_example :: reset_draws where
  "reset_draws_example = \<lparr>s_tool_wear = 1 / 2, s_degradation = 1 / 2\<rparr>"

section \<open>Auxiliary notions for the statements\<close>

text \<open>The results inside what \<open>predict\<close> returns, and the dictionaries inside
  what it is given.\<close>

definition results_of :: "predict_output \<Rightarrow> PredictionResult list" where
  "results_of out = (case out of Result r \<Rightarrow> [r] | Results rs \<Rightarrow> rs)"

definition dicts_of :: "py_data \<Rightarrow> pydict list" where
  "dicts_of input = (case input of Dict d \<Rightarrow> [d] | DictList ds \<Rightarrow> ds)"

definition is_number :: "pyval \<Rightarrow> bool" where
  "is_number v = (case v of PyInt i \<Rightarrow> True | PyFloat x \<Rightarrow> True | _ \<Rightarrow> False)"

text \<open>A sensor is missing from a reading when neither spelling of its key is
  there.\<close>

definition field_missing :: "pydict \<Rightarrow> string \<Rightarrow> string \<Rightarrow> bool" where
  "field_missing data k1 k2 = (map_of data k1 = None \<and> map_of data k2 = None)"

text \<open>The keys of the dictionary \<open>features\<close> of \<open>preprocess_input\<close>.\<close>

definition feature_names :: "string list" where
  "feature_names =
     [''Air_temperature_K'', ''Process_temperature_K'', ''Rotational_speed_rpm'',
      ''Torque_Nm'', ''Tool_wear_min'', ''Type_encoded'', ''Temp_diff'', ''Power'']"

text \<open>A loaded model for running the definitions: the encoder of a
  \<open>LabelEncoder\<close> fitted on H, L, M, the columns in the order the training
  script records them, and a classifier that answers class 1 with failure
  probability 0.6 for every vector.\<close>

definition model_example :: ModelInference where
  "model_example =
     \<lparr>model_loaded = True,
      encoder_transform =
        (\<lambda>v. if v = PyStr ''H'' then Inr 0
             else if v = PyStr ''L'' then Inr 1
             else if v = PyStr ''M'' then Inr 2
             else Inl (ValueError ''y contains previously unseen labels'')),
      feature_columns =
        [''Air_temperature_K'', ''Process_temperature_K'', ''Rotational_speed_rpm'',
         ''Torque_Nm'', ''Tool_wear_min'', ''Type_encoded'', ''Temp_diff'', ''Power''],
      model_predict = (\<lambda>features. Inr 1),
      model_predict_proba = (\<lambda>features. Inr (0.4, 0.6))\<rparr>"

text \<open>A fleet built by the constructor, and a clock that advances between the
  readings of one call.\<close>

definition fleet_example :: "int \<Rightarrow> DataSimulator" where
  "fleet_example n = DataSimulator_init (Some n) (\<lambda>i. 0) (\<lambda>i. init_draws_example)"

definition clock_example :: "nat \<Rightarrow> gen_draws" where
  "clock_example i =
     gen_draws_example
       (if i = 0 then ''2024-01-01T00:00:00.000100'' else ''2024-01-01T00:00:00.000250'')"

text \<open>What the example fleet contains and returns (proved below).\<close>

definition machine_example :: "string \<Rightarrow> MachineSimulator" where
  "machine_example mid =
     \<lparr>machine_id = mid, machine_type = ''L'', tool_wear = 5, air_temp_baseline = 297.75,
      process_temp_baseline = 307.75, speed_baseline = 1850, torque_baseline = 30,
      degradation_rate = 0.225, operating_mode = ''normal'', cycles = 0\<rparr>"

definition reading_example :: "string \<Rightarrow> string \<Rightarrow> pydict" where
  "reading_example mid t =
     [(''machine_id'', PyStr mid), (''Type'', PyStr ''L''),
      (''Air temperature [K]'', PyFloat 297.8),
      (''Process temperature [K]'', PyFloat 307.8),
      (''Rotational speed [rpm]'', PyInt 1850),
      (''Torque [Nm]'', PyFloat 30), (''Tool wear [min]'', PyInt 5),
      (''timestamp'', PyStr t),
      (''operating_mode'', PyStr ''normal''), (''cycles'', PyInt 1)]"

definition result_example :: "string \<Rightarrow> string \<Rightarrow> PredictionResult" where
  "result_example mid t =
     \<lparr>res_machine_id = PyStr mid, res_prediction = 1,
      res_failure_probability = 0.6, res_normal_probability = 0.4,
      res_health_status = ''MAINTENANCE REQUIRED'',
      res_sensor_data = reading_example mid t,
      res_alert = True\<rparr>"

text \<open>The test reading of \<open>model_inference.py\<close>, under the bracketed and under the
  normalized key spelling, with a given tool wear; and the same reading with the
  tool wear, or the air temperature, left out.\<close>

definition reading_bracketed :: "pyval \<Rightarrow> pydict" where
  "reading_bracketed wear =
     [(''machine_id'', PyStr ''M001''), (''Type'', PyStr ''M''),
      (''Air temperature [K]'', PyFloat 298.1),
      (''Process temperature [K]'', PyFloat 308.6),
      (''Rotational speed [rpm]'', PyInt 1551),
      (''Torque [Nm]'', PyFloat 42.8),
      (''Tool wear [min]'', wear)]"

definition reading_normalized :: "pyval \<Rightarrow> pydict" where
  "reading_normalized wear =
     [(''machine_id'', PyStr ''M001''), (''Type'', PyStr ''M''),
      (''Air_temperature_K'', PyFloat 298.1),
      (''Process_temperature_K'', PyFloat 308.6),
      (''Rotational_speed_rpm'', PyInt 1551),
      (''Torque_Nm'', PyFloat 42.8),
      (''Tool_wear_min'', wear)]"

definition reading_without_wear :: pydict where
  "reading_without_wear =
     [(''machine_id'', PyStr ''M001''), (''Type'', PyStr ''M''),
      (''Air temperature [K]'', PyFloat 298.1),
      (''Process temperature [K]'', PyFloat 308.6),
      (''Rotational speed [rpm]'', PyInt 1551),
      (''Torque [Nm]'', PyFloat 42.8)]"

definition reading_without_air :: pydict where
  "reading_without_air =
     [(''machine_id'', PyStr ''M001''), (''Type'', PyStr ''M''),
      (''Process temperature [K]'', PyFloat 308.6),
      (''Rotational speed [rpm]'', PyInt 1551),
      (''Torque [Nm]'', PyFloat 42.8),
      (''Tool wear [min]'', PyInt 150)]"

text \<open>The number a numeric value stands for.\<close>

definition num_of :: "pyval \<Rightarrow> real" where
  "num_of v = (case v of PyInt i \<Rightarrow> of_int i | PyFloat x \<Rightarrow> x | _ \<Rightarrow> 0)"

text \<open>Two more loaded models: a classifier that decides by the tool-wear column
  (class 1 with failure probability 0.6 from 100 minutes on, class 0 with 0.1 below),
  and one whose failure probability, 0.59996, lies just below the threshold.\<close>

definition model_wear_rule :: ModelInference where
  "model_wear_rule =
     model_example
       \<lparr>model_predict :=
          (\<lambda>features. case drop 4 features of
                         PyInt w # rest \<Rightarrow> Inr (if 100 \<le> w then 1 else 0)
                       | _ \<Rightarrow> Inl ModelError),
        model_predict_proba :=
          (\<lambda>features. case drop 4 features of
                         PyInt w # rest \<Rightarrow> Inr (if 100 \<le> w then (0.4, 0.6) else (0.9, 0.1))
                       | _ \<Rightarrow> Inl ModelError)\<rparr>"

definition model_near_threshold :: ModelInference where
  "model_near_threshold =
     model_example
       \<lparr>model_predict := (\<lambda>features. Inr 0),
        model_predict_proba := (\<lambda>features. Inr (0.40004, 0.59996))\<rparr>"

text \<open>A result record for the bracketed test reading with a given tool wear.\<close>

definition result_for :: "pyval \<Rightarrow> int \<Rightarrow> real \<Rightarrow> real \<Rightarrow> string \<Rightarrow> bool \<Rightarrow> PredictionResult" where
  "result_for wear label fp np band al =
     \<lparr>res_machine_id = PyStr ''M001'', res_prediction = label,
      res_failure_probability = fp, res_normal_probability = np,
      res_health_status = band, res_sensor_data = reading_bracketed wear,
      res_alert = al\<rparr>"

section \<open>Health bands\<close>

lemma band_names:
  "py_replace (CHR ''_'') (CHR '' '') (py_upper ''healthy'') = ''HEALTHY''"
  "py_replace (CHR ''_'') (CHR '' '') (py_upper ''risk'') = ''RISK''"
  "py_replace (CHR ''_'') (CHR '' '') (py_upper ''maintenance_required'') = ''MAINTENANCE REQUIRED''"
  by (simp_all add: py_replace_def py_upper_def upper_char_def)

lemma get_health_status_eq:
  "get_health_status p =
     (if 0 \<le> p \<and> p < 0.3 then ''HEALTHY''
      else if 0.3 \<le> p \<and> p < 0.6 then ''RISK''
      else ''MAINTENANCE REQUIRED'')"
  unfolding get_health_status_def HEALTH_STATUS_def
  by (simp add: band_names)

text \<open>
  C1. The band of a probability: \<open>[0, 0.3)\<close> is HEALTHY, \<open>[0.3, 0.6)\<close> is RISK and
  \<open>[0.6, 1.0]\<close> is MAINTENANCE REQUIRED (the band names as the code emits them:
  upper case, the underscore replaced by a space). The boundaries 0.3 and 0.6 belong
  to the higher band, 1.0 belongs to the last band, and a probability that no
  configured interval contains gets the default MAINTENANCE REQUIRED. The function
  is total: the equations give one band for every real.
\<close>

theorem C1_health_bands:
  "(0 \<le> p \<and> p < 0.3 \<longrightarrow> get_health_status p = ''HEALTHY'') \<and>
   (0.3 \<le> p \<and> p < 0.6 \<longrightarrow> get_health_status p = ''RISK'') \<and>
   (0.6 \<le> p \<and> p \<le> 1.0 \<longrightarrow> get_health_status p = ''MAINTENANCE REQUIRED'') \<and>
   (\<not> band_matches p \<longrightarrow> get_health_status p = ''MAINTENANCE REQUIRED'') \<and>
   get_health_status 0.3 = ''RISK'' \<and>
   get_health_status 0.6 = ''MAINTENANCE REQUIRED'' \<and>
   get_health_status 1.0 = ''MAINTENANCE REQUIRED''"
proof -
  have nomatch: "\<not> band_matches p \<Longrightarrow> \<not> (0 \<le> p \<and> p < 0.3) \<and> \<not> (0.3 \<le> p \<and> p < 0.6)"
    by (simp add: band_matches_def HEALTH_STATUS_def)
  show ?thesis
    using nomatch by (auto simp add: get_health_status_eq)
qed

theorem C1_health_bands_witness:
  "get_health_status 0 = ''HEALTHY'' \<and>
   get_health_status 0.29 = ''HEALTHY'' \<and>
   get_health_status 0.45 = ''RISK'' \<and>
   get_health_status 0.75 = ''MAINTENANCE REQUIRED'' \<and>
   \<not> band_matches 1.5 \<and> get_health_status 1.5 = ''MAINTENANCE REQUIRED''"
proof -
  have nm: "\<not> band_matches 1.5"
    by (simp add: band_matches_def HEALTH_STATUS_def)
  show ?thesis
    using C1_health_bands [of 0] C1_health_bands [of "0.29"] C1_health_bands [of "0.45"]
      C1_health_bands [of "0.75"] C1_health_bands [of "1.5"] nm
    by simp
qed

section \<open>The simulator: ranges and wear\<close>

lemma rint_lower: "of_int k \<le> x \<Longrightarrow> k \<le> rint x"
proof -
  assume "of_int k \<le> x"
  then have "k \<le> \<lfloor>x\<rfloor>" by (simp add: le_floor_iff)
  then show ?thesis by (simp add: rint_def Let_def)
qed

lemma rint_upper: "x \<le> of_int k \<Longrightarrow> rint x \<le> k"
proof -
  assume h: "x \<le> of_int k"
  show ?thesis
  proof (cases "x = of_int k")
    case True
    then show ?thesis by (simp add: rint_def Let_def)
  next
    case False
    with h have "x < of_int k" by simp
    then have "\<lfloor>x\<rfloor> < k" by (simp add: floor_less_iff)
    then have "\<lfloor>x\<rfloor> + 1 \<le> k" by simp
    then show ?thesis by (simp add: rint_def Let_def)
  qed
qed

lemma py_round_lower: "of_int k / 10 ^ n \<le> x \<Longrightarrow> of_int k / 10 ^ n \<le> py_round x n"
proof -
  assume "of_int k / 10 ^ n \<le> x"
  then have "of_int k \<le> x * 10 ^ n" by (simp add: pos_divide_le_eq)
  then have "k \<le> rint (x * 10 ^ n)" by (rule rint_lower)
  then have "(of_int k :: real) \<le> of_int (rint (x * 10 ^ n))" by simp
  then show ?thesis by (simp add: py_round_def divide_right_mono)
qed

lemma py_round_upper: "x \<le> of_int k / 10 ^ n \<Longrightarrow> py_round x n \<le> of_int k / 10 ^ n"
proof -
  assume "x \<le> of_int k / 10 ^ n"
  then have "x * 10 ^ n \<le> of_int k" by (simp add: pos_le_divide_eq)
  then have "rint (x * 10 ^ n) \<le> k" by (rule rint_upper)
  then have "(of_int (rint (x * 10 ^ n)) :: real) \<le> of_int k" by simp
  then show ?thesis by (simp add: py_round_def divide_right_mono)
qed

lemma py_int_lower: "0 \<le> k \<Longrightarrow> of_int k \<le> x \<Longrightarrow> k \<le> py_int x"
  by (simp add: py_int_def le_floor_iff)

lemma py_int_upper: "x \<le> of_int k \<Longrightarrow> py_int x \<le> k"
  by (simp add: py_int_def ceiling_le_iff) (meson floor_le_iff le_less_trans less_add_one of_int_floor_le order_trans floor_mono floor_of_int)

lemma np_clip_bounds: "lo \<le> hi \<Longrightarrow> lo \<le> np_clip x (lo, hi) \<and> np_clip x (lo, hi) \<le> hi"
  by (simp add: np_clip_def)

lemma sensor_range_simps:
  "sensor_range ''Air temperature [K]'' = (295, 304)"
  "sensor_range ''Process temperature [K]'' = (305, 313)"
  "sensor_range ''Rotational speed [rpm]'' = (1200, 2500)"
  "sensor_range ''Torque [Nm]'' = (15, 70)"
  "sensor_range ''Tool wear [min]'' = (0, 250)"
  by (simp_all add: sensor_range_def SENSOR_RANGES_def)


lemma uniform_bounds: "a \<le> b \<Longrightarrow> unit_draw r \<Longrightarrow> a \<le> uniform a b r \<and> uniform a b r < b \<or> (a = b \<and> uniform a b r = a)"
proof -
  assume ab: "a \<le> b" and r: "unit_draw r"
  show ?thesis
  proof (cases "a = b")
    case True
    then show ?thesis by (simp add: uniform_def)
  next
    case False
    with ab have pos: "0 < b - a" by simp
    from r have r0: "0 \<le> r" and r1: "r < 1" by (simp_all add: unit_draw_def)
    have "0 \<le> (b - a) * r" using pos r0 by simp
    moreover have "(b - a) * r < (b - a) * 1" using pos r1 by (simp only: mult_less_cancel_left_pos)
    ultimately show ?thesis by (simp add: uniform_def)
  qed
qed

lemma uniform_lower: "a \<le> b \<Longrightarrow> unit_draw r \<Longrightarrow> a \<le> uniform a b r"
  using uniform_bounds [of a b r] by auto

lemma uniform_upper: "a < b \<Longrightarrow> unit_draw r \<Longrightarrow> uniform a b r < b"
  using uniform_bounds [of a b r] by auto

lemma new_machine_sel:
  "tool_wear (new_machine mid ty w a p s t r) = w"
  "degradation_rate (new_machine mid ty w a p s t r) = r"
  "machine_id (new_machine mid ty w a p s t r) = mid"
  by (simp_all add: new_machine_def)

lemma init_ok: "valid_init_draws d \<Longrightarrow> machine_ok (MachineSimulator_init mid mtype cond d)"
proof -
  assume v: "valid_init_draws d"
  then have w: "unit_draw (i_tool_wear d)" and r: "unit_draw (i_degradation d)"
    by (simp_all add: valid_init_draws_def)
  have w1: "5 \<le> uniform 5 45 (i_tool_wear d)" "uniform 5 45 (i_tool_wear d) < 45"
    using uniform_lower [OF _ w, of 5 45] uniform_upper [OF _ w, of 5 45] by simp_all
  have w2: "165 \<le> uniform 165 185 (i_tool_wear d)" "uniform 165 185 (i_tool_wear d) < 185"
    using uniform_lower [OF _ w, of 165 185] uniform_upper [OF _ w, of 165 185] by simp_all
  have w3: "180 \<le> uniform 180 220 (i_tool_wear d)" "uniform 180 220 (i_tool_wear d) < 220"
    using uniform_lower [OF _ w, of 180 220] uniform_upper [OF _ w, of 180 220] by simp_all
  have w4: "5 \<le> uniform 5 40 (i_tool_wear d)" "uniform 5 40 (i_tool_wear d) < 40"
    using uniform_lower [OF _ w, of 5 40] uniform_upper [OF _ w, of 5 40] by simp_all
  have r1: "0.15 \<le> uniform 0.15 0.3 (i_degradation d)"
    using uniform_lower [OF _ r, of "0.15" "0.3"] by simp
  have r2: "0.2 \<le> uniform 0.2 0.35 (i_degradation d)"
    using uniform_lower [OF _ r, of "0.2" "0.35"] by simp
  have r4: "0.2 \<le> uniform 0.2 0.4 (i_degradation d)"
    using uniform_lower [OF _ r, of "0.2" "0.4"] by simp
  show ?thesis
    unfolding machine_ok_def MachineSimulator_init_def Let_def
    using w1 w2 w3 w4 r1 r2 r4 by (simp add: new_machine_sel)
qed

lemma generate_state:
  "tool_wear (snd (generate_sensor_data g m)) =
     min (tool_wear m + degradation_rate m * uniform 0.1 0.3 (g_wear g)) 250"
  "degradation_rate (snd (generate_sensor_data g m)) = degradation_rate m"
  "machine_id (snd (generate_sensor_data g m)) = machine_id m"
  by (simp_all add: generate_sensor_data_def Let_def)

lemma wear_increment_nonneg:
  "machine_ok m \<Longrightarrow> valid_gen_draws g \<Longrightarrow> 0 \<le> degradation_rate m * uniform 0.1 0.3 (g_wear g)"
proof -
  assume ok: "machine_ok m" and v: "valid_gen_draws g"
  from v have "unit_draw (g_wear g)" by (simp add: valid_gen_draws_def)
  then have "0.1 \<le> uniform 0.1 0.3 (g_wear g)" using uniform_lower [of "0.1" "0.3" "g_wear g"] by simp
  then have "0 \<le> uniform 0.1 0.3 (g_wear g)" by simp
  moreover from ok have "0 \<le> degradation_rate m" by (simp add: machine_ok_def)
  ultimately show ?thesis by simp
qed

lemma generate_ok:
  "machine_ok m \<Longrightarrow> valid_gen_draws g \<Longrightarrow> machine_ok (snd (generate_sensor_data g m))"
  using wear_increment_nonneg [of m g]
  by (simp add: machine_ok_def generate_state)

lemma generate_wear_mono:
  "machine_ok m \<Longrightarrow> valid_gen_draws g \<Longrightarrow>
   tool_wear m \<le> tool_wear (snd (generate_sensor_data g m)) \<and>
   tool_wear (snd (generate_sensor_data g m)) \<le> 250"
  using wear_increment_nonneg [of m g]
  by (simp add: machine_ok_def generate_state)

lemma reset_state:
  "tool_wear (reset_tool_wear s m) = uniform 0 20 (s_tool_wear s)"
  "degradation_rate (reset_tool_wear s m) = uniform 0.2 0.5 (s_degradation s)"
  "machine_id (reset_tool_wear s m) = machine_id m"
  by (simp_all add: reset_tool_wear_def)

lemma reset_wear_bounds:
  "valid_reset_draws s \<Longrightarrow>
   0 \<le> tool_wear (reset_tool_wear s m) \<and> tool_wear (reset_tool_wear s m) < 20"
  using uniform_lower [of 0 20 "s_tool_wear s"] uniform_upper [of 0 20 "s_tool_wear s"]
  by (simp add: valid_reset_draws_def reset_state)

lemma reset_ok: "valid_reset_draws s \<Longrightarrow> machine_ok (reset_tool_wear s m)"
  using reset_wear_bounds [of s m] uniform_lower [of "0.2" "0.5" "s_degradation s"]
  by (simp add: machine_ok_def valid_reset_draws_def reset_state(2))

lemma run_calls_ok:
  "machine_ok m \<Longrightarrow> list_all valid_call cs \<Longrightarrow> machine_ok (snd (run_calls cs m))"
proof (induction cs arbitrary: m)
  case Nil
  then show ?case by simp
next
  case (Cons c cs)
  show ?case
  proof (cases c)
    case (Generate g)
    with Cons.prems have "machine_ok (snd (generate_sensor_data g m))"
      by (simp add: generate_ok)
    with Cons.prems Cons.IH [of "snd (generate_sensor_data g m)"] Generate
    show ?thesis by (simp add: split_beta)
  next
    case (ResetWear s)
    with Cons.prems have "machine_ok (reset_tool_wear s m)" by (simp add: reset_ok)
    with Cons.prems Cons.IH [of "reset_tool_wear s m"] ResetWear
    show ?thesis by simp
  qed
qed


lemma clip_round_bounds:
  assumes "lo = of_int a" "hi = of_int b" "a \<le> b"
  shows "lo \<le> py_round (np_clip x (lo, hi)) 1 \<and> py_round (np_clip x (lo, hi)) 1 \<le> hi"
proof -
  have le: "lo \<le> hi" using assms by simp
  have lo10: "lo = of_int (a * 10) / 10 ^ 1" and hi10: "hi = of_int (b * 10) / 10 ^ 1"
    using assms by simp_all
  from np_clip_bounds [OF le, of x]
  have c: "lo \<le> np_clip x (lo, hi)" "np_clip x (lo, hi) \<le> hi" by simp_all
  have "of_int (a * 10) / 10 ^ 1 \<le> py_round (np_clip x (lo, hi)) 1"
    using c(1) lo10 by (intro py_round_lower) simp
  moreover have "py_round (np_clip x (lo, hi)) 1 \<le> of_int (b * 10) / 10 ^ 1"
    using c(2) hi10 by (intro py_round_upper) simp
  ultimately show ?thesis using lo10 hi10 by simp
qed

lemma clip_int_bounds:
  assumes "lo = of_int a" "hi = of_int b" "a \<le> b" "0 \<le> a"
  shows "a \<le> py_int (np_clip x (lo, hi)) \<and> py_int (np_clip x (lo, hi)) \<le> b"
proof -
  have le: "lo \<le> hi" using assms by simp
  from np_clip_bounds [OF le, of x]
  have c: "of_int a \<le> np_clip x (lo, hi)" "np_clip x (lo, hi) \<le> of_int b"
    using assms by simp_all
  show ?thesis using py_int_lower [OF assms(4) c(1)] py_int_upper [OF c(2)] by simp
qed

lemma generate_fields:
  "\<exists>x. num_field (fst (generate_sensor_data g m)) ''Air temperature [K]'' =
        Some (py_round (np_clip x (295, 304)) 1)"
  "\<exists>x. num_field (fst (generate_sensor_data g m)) ''Process temperature [K]'' =
        Some (py_round (np_clip x (305, 313)) 1)"
  "\<exists>x. num_field (fst (generate_sensor_data g m)) ''Rotational speed [rpm]'' =
        Some (of_int (py_int (np_clip x (1200, 2500))))"
  "\<exists>x. num_field (fst (generate_sensor_data g m)) ''Torque [Nm]'' =
        Some (py_round (np_clip x (15, 70)) 1)"
  "num_field (fst (generate_sensor_data g m)) ''Tool wear [min]'' =
        Some (of_int (py_int (tool_wear (snd (generate_sensor_data g m)))))"
  by (auto simp add: generate_sensor_data_def Let_def num_field_def sensor_range_simps)

lemma generate_in_ranges:
  assumes "machine_ok m" "valid_gen_draws g"
  shows "reading_in_ranges (fst (generate_sensor_data g m))"
proof -
  let ?rd = "fst (generate_sensor_data g m)"
  have air: "field_within ?rd ''Air temperature [K]'' 295 304"
    using generate_fields(1) [of g m] clip_round_bounds [of 295 295 304 304]
    by (auto simp add: field_within_def)
  have process: "field_within ?rd ''Process temperature [K]'' 305 313"
    using generate_fields(2) [of g m] clip_round_bounds [of 305 305 313 313]
    by (auto simp add: field_within_def)
  have speed: "field_within ?rd ''Rotational speed [rpm]'' 1200 2500"
    using generate_fields(3) [of g m] clip_int_bounds [of 1200 1200 2500 2500]
    by (auto simp add: field_within_def)
  have torque: "field_within ?rd ''Torque [Nm]'' 15 70"
    using generate_fields(4) [of g m] clip_round_bounds [of 15 15 70 70]
    by (auto simp add: field_within_def)
  from generate_ok [OF assms] have ok': "machine_ok (snd (generate_sensor_data g m))" .
  then have w: "of_int 0 \<le> tool_wear (snd (generate_sensor_data g m))"
    "tool_wear (snd (generate_sensor_data g m)) \<le> of_int 250"
    by (simp_all add: machine_ok_def)
  have "0 \<le> py_int (tool_wear (snd (generate_sensor_data g m)))"
    using py_int_lower [OF _ w(1)] by simp
  moreover have "py_int (tool_wear (snd (generate_sensor_data g m))) \<le> 250"
    using py_int_upper [OF w(2)] by simp
  ultimately have wear: "field_within ?rd ''Tool wear [min]'' 0 250"
    by (simp add: field_within_def generate_fields(5))
  show ?thesis
    using air process speed torque wear by (simp add: reading_in_ranges_def)
qed

lemma run_calls_in_ranges:
  "machine_ok m \<Longrightarrow> list_all valid_call cs \<Longrightarrow>
   list_all reading_in_ranges (fst (run_calls cs m))"
proof (induction cs arbitrary: m)
  case Nil
  then show ?case by simp
next
  case (Cons c cs)
  show ?case
  proof (cases c)
    case (Generate g)
    with Cons.prems have v: "valid_gen_draws g" by simp
    have r: "reading_in_ranges (fst (generate_sensor_data g m))"
      using Cons.prems(1) v by (rule generate_in_ranges)
    have ok: "machine_ok (snd (generate_sensor_data g m))"
      using Cons.prems(1) v by (rule generate_ok)
    from Cons.IH [OF ok] Cons.prems(2)
    have "list_all reading_in_ranges (fst (run_calls cs (snd (generate_sensor_data g m))))"
      by simp
    with r Generate show ?thesis by (simp add: split_beta)
  next
    case (ResetWear s)
    with Cons.prems have "machine_ok (reset_tool_wear s m)" by (simp add: reset_ok)
    from Cons.IH [OF this] Cons.prems(2) ResetWear show ?thesis by simp
  qed
qed

lemma example_draws_valid:
  "valid_init_draws init_draws_example"
  "valid_gen_draws (gen_draws_example t)"
  "valid_reset_draws reset_draws_example"
  by (simp_all add: valid_init_draws_def valid_gen_draws_def valid_reset_draws_def unit_draw_def
      init_draws_example_def gen_draws_example_def reset_draws_example_def SENSOR_TYPES_def)

text \<open>
  C3. Whatever the initial condition given to the constructor (healthy, risk,
  maintenance, or any other string, which takes the default branch), and whatever
  history of calls follows (readings generated, with maintenance resets anywhere in
  between), every reading returned has its five sensor values inside the configured
  ranges: air temperature in \<open>[295, 304]\<close>, process temperature in \<open>[305, 313]\<close>,
  rotational speed in \<open>[1200, 2500]\<close>, torque in \<open>[15, 70]\<close>, tool wear in
  \<open>[0, 250]\<close>. The draws are those \<open>random\<close> can return.
\<close>

theorem C3_readings_in_range:
  assumes "valid_init_draws d" and "list_all valid_call cs"
  shows "list_all reading_in_ranges
           (fst (run_calls cs (MachineSimulator_init mid mtype initial_condition d)))"
  using init_ok [OF assms(1)] assms(2) by (rule run_calls_in_ranges)

theorem C3_readings_in_range_witness:
  "valid_init_draws init_draws_example \<and>
   list_all valid_call
     [Generate (gen_draws_example ''t1''), Generate (gen_draws_example ''t2''),
      ResetWear reset_draws_example, Generate (gen_draws_example ''t3'')] \<and>
   length (fst (run_calls
     [Generate (gen_draws_example ''t1''), Generate (gen_draws_example ''t2''),
      ResetWear reset_draws_example, Generate (gen_draws_example ''t3'')]
     (MachineSimulator_init ''M004'' (Some ''L'') ''risk'' init_draws_example))) = 3 \<and>
   list_all reading_in_ranges (fst (run_calls
     [Generate (gen_draws_example ''t1''), Generate (gen_draws_example ''t2''),
      ResetWear reset_draws_example, Generate (gen_draws_example ''t3'')]
     (MachineSimulator_init ''M004'' (Some ''L'') ''risk'' init_draws_example)))"
proof -
  have v: "list_all valid_call
     [Generate (gen_draws_example ''t1''), Generate (gen_draws_example ''t2''),
      ResetWear reset_draws_example, Generate (gen_draws_example ''t3'')]"
    by (simp add: example_draws_valid)
  have n: "length (fst (run_calls
     [Generate (gen_draws_example ''t1''), Generate (gen_draws_example ''t2''),
      ResetWear reset_draws_example, Generate (gen_draws_example ''t3'')] m)) = 3" for m
    by (simp add: split_beta)
  show ?thesis
    using C3_readings_in_range [OF example_draws_valid(1) v, of "''M004''" "Some ''L''" "''risk''"]
      v n example_draws_valid(1)
    by simp
qed

text \<open>
  C4 (as the code has it). On a machine reached from the constructor by any history
  of calls, generating a reading never decreases the tool-wear accumulator and never
  takes it above 250. A maintenance reset draws a fresh wear in \<open>[0, 20)\<close>: the
  wear strictly decreases when it was at least 20 before the reset, and only then is
  a decrease certain.
\<close>

theorem C4_wear_monotone_until_reset:
  assumes "valid_init_draws d" and "list_all valid_call cs"
    and "m = snd (run_calls cs (MachineSimulator_init mid mtype initial_condition d))"
  shows "(valid_gen_draws g \<longrightarrow>
            tool_wear m \<le> tool_wear (snd (generate_sensor_data g m)) \<and>
            tool_wear (snd (generate_sensor_data g m)) \<le> 250) \<and>
         (valid_reset_draws s \<longrightarrow>
            0 \<le> tool_wear (reset_tool_wear s m) \<and> tool_wear (reset_tool_wear s m) < 20 \<and>
            (20 \<le> tool_wear m \<longrightarrow> tool_wear (reset_tool_wear s m) < tool_wear m))"
proof -
  have ok: "machine_ok m"
    unfolding assms(3) using init_ok [OF assms(1)] assms(2) by (rule run_calls_ok)
  have gen: "valid_gen_draws g \<Longrightarrow>
      tool_wear m \<le> tool_wear (snd (generate_sensor_data g m)) \<and>
      tool_wear (snd (generate_sensor_data g m)) \<le> 250"
    using ok by (rule generate_wear_mono)
  have reset: "valid_reset_draws s \<Longrightarrow>
      0 \<le> tool_wear (reset_tool_wear s m) \<and> tool_wear (reset_tool_wear s m) < 20"
    by (rule reset_wear_bounds)
  show ?thesis using gen reset by auto
qed

theorem C4_wear_monotone_until_reset_witness:
  "valid_init_draws init_draws_example \<and>
   list_all valid_call [Generate (gen_draws_example ''t1'')] \<and>
   valid_gen_draws (gen_draws_example ''t2'') \<and>
   valid_reset_draws reset_draws_example \<and>
   tool_wear (snd (run_calls [Generate (gen_draws_example ''t1'')]
       (MachineSimulator_init ''M005'' (Some ''H'') ''maintenance'' init_draws_example)))
     \<le> tool_wear (snd (generate_sensor_data (gen_draws_example ''t2'')
         (snd (run_calls [Generate (gen_draws_example ''t1'')]
           (MachineSimulator_init ''M005'' (Some ''H'') ''maintenance'' init_draws_example))))) \<and>
   20 \<le> tool_wear (snd (run_calls [Generate (gen_draws_example ''t1'')]
       (MachineSimulator_init ''M005'' (Some ''H'') ''maintenance'' init_draws_example))) \<and>
   tool_wear (reset_tool_wear reset_draws_example
       (snd (run_calls [Generate (gen_draws_example ''t1'')]
         (MachineSimulator_init ''M005'' (Some ''H'') ''maintenance'' init_draws_example))))
     < tool_wear (snd (run_calls [Generate (gen_draws_example ''t1'')]
         (MachineSimulator_init ''M005'' (Some ''H'') ''maintenance'' init_draws_example)))"
proof -
  have v: "list_all valid_call [Generate (gen_draws_example ''t1'')]"
    by (simp add: example_draws_valid)
  have w: "tool_wear (snd (run_calls [Generate (gen_draws_example ''t1'')]
       (MachineSimulator_init ''M005'' (Some ''H'') ''maintenance'' init_draws_example))) = 180.055"
    by (simp add: split_beta generate_state MachineSimulator_init_def new_machine_sel
        init_draws_example_def gen_draws_example_def uniform_def)
  show ?thesis
    using C4_wear_monotone_until_reset [OF example_draws_valid(1) v refl,
        of "gen_draws_example ''t2''" "''M005''" "Some ''H''" "''maintenance''" reset_draws_example]
      v w example_draws_valid
    by simp
qed

theorem C4_reset_can_raise_wear:
  "valid_init_draws init_draws_example \<and> valid_reset_draws reset_draws_example \<and>
   tool_wear (MachineSimulator_init ''M001'' (Some ''L'') ''healthy'' init_draws_example) = 5 \<and>
   tool_wear (reset_tool_wear reset_draws_example
     (MachineSimulator_init ''M001'' (Some ''L'') ''healthy'' init_draws_example)) = 10"
proof -
  have before: "tool_wear (MachineSimulator_init ''M001'' (Some ''L'') ''healthy''
      init_draws_example) = 5"
    by (simp add: MachineSimulator_init_def new_machine_sel init_draws_example_def uniform_def)
  have after: "tool_wear (reset_tool_wear reset_draws_example m) = 10" for m
    by (simp add: reset_state reset_draws_example_def uniform_def)
  show ?thesis
    using before after by (simp add: example_draws_valid)
qed

section \<open>The fleet: unknown and empty machine ids\<close>

lemma find_machine_None: "find_machine ms mid = None \<longleftrightarrow> mid \<notin> machine_id ` set ms"
  by (induction ms) auto

lemma generate_all_length:
  "length (fst (generate_all gs i ms)) = length ms \<and> length (snd (generate_all gs i ms)) = length ms"
  by (induction ms arbitrary: i) (simp_all add: split_beta)

lemma init_machine_id: "machine_id (MachineSimulator_init mid mtype cond d) = mid"
  by (simp add: MachineSimulator_init_def Let_def new_machine_def)

lemma fleet_ids:
  "map machine_id (machines (DataSimulator_init n ks ds)) =
     map (\<lambda>i. ''M'' @ zfill (str_nat (i + 1)) 3) [0..<nat (num_machines (DataSimulator_init n ks ds))]"
  by (simp add: DataSimulator_init_def Let_def init_machine_id comp_def)

lemma fleet_ids_nonempty: "[] \<notin> machine_id ` set (machines (DataSimulator_init n ks ds))"
proof -
  have "[] \<notin> set (map machine_id (machines (DataSimulator_init n ks ds)))"
    unfolding fleet_ids by auto
  then show ?thesis by simp
qed

lemma str_nat_digits: "str_nat (Suc 0) = ''1''" "str_nat (Suc (Suc 0)) = ''2''"
  by (simp_all add: str_nat.simps digit_char_def)

lemma pad_conditions_small:
  "num \<le> 5 \<Longrightarrow> pad_conditions num [''healthy'', ''healthy'', ''healthy'', ''risk'', ''maintenance'']
     = [''healthy'', ''healthy'', ''healthy'', ''risk'', ''maintenance'']"
  by (simp add: pad_conditions.simps)

lemma init_example: "MachineSimulator_init mid (Some ''L'') ''healthy'' init_draws_example = machine_example mid"
  by (simp add: MachineSimulator_init_def new_machine_def init_draws_example_def uniform_def machine_example_def)

lemma fleet_example_machines:
  "machines (fleet_example 1) = [machine_example ''M001'']"
  "machines (fleet_example 2) = [machine_example ''M001'', machine_example ''M002'']"
  by (simp_all add: fleet_example_def DataSimulator_init_def Let_def pad_conditions_small
      upt_conv_Cons str_nat_digits zfill_def numeral_2_eq_2 choice_def SENSOR_TYPES_def init_example)

lemma generate_example:
  "fst (generate_sensor_data (gen_draws_example t) (machine_example mid)) = reading_example mid t"
  apply (simp add: generate_sensor_data_def Let_def gen_draws_example_def machine_example_def reading_example_def
      sensor_range_simps uniform_def gauss_def np_clip_def py_round_def py_int_def)
  apply (simp add: rint_def Let_def)
  done

lemma generate_data_unknown:
  "mid \<noteq> [] \<Longrightarrow> mid \<notin> machine_id ` set (machines sim) \<Longrightarrow>
   generate_data gs (Some mid) sim = (Inl (ValueError (''Machine '' @ mid @ '' not found'')), sim)"
  using find_machine_None [of "machines sim" mid]
  by (simp add: generate_data_def)

lemma perform_maintenance_unknown:
  "mid \<notin> machine_id ` set (machines sim) \<Longrightarrow> perform_maintenance s mid sim = (False, sim)"
  using find_machine_None [of "machines sim" mid]
  by (simp add: perform_maintenance_def)

lemma perform_maintenance_known:
  "mid \<in> machine_id ` set (machines sim) \<Longrightarrow> fst (perform_maintenance s mid sim) = True"
  using find_machine_None [of "machines sim" mid]
  by (auto simp add: perform_maintenance_def split: option.splits)

lemma generate_fleet_result:
  "fst (generate_fleet gs sim) = Inr (DictList (fst (generate_all gs 0 (machines sim))))"
  by (simp add: generate_fleet_def split_beta)

lemma example_ids:
  "machine_id ` set (machines (fleet_example 2)) = {''M001'', ''M002''}"
  by (simp add: fleet_example_machines machine_example_def)

lemma generate_all_example:
  "fst (generate_all clock_example 0 (machines (fleet_example 2))) =
     [reading_example ''M001'' ''2024-01-01T00:00:00.000100'',
      reading_example ''M002'' ''2024-01-01T00:00:00.000250'']"
  "fst (generate_all clock_example 0 (machines (fleet_example 1))) =
     [reading_example ''M001'' ''2024-01-01T00:00:00.000100'']"
  by (simp_all add: fleet_example_machines split_beta clock_example_def generate_example)

text \<open>
  C5 (as the code has it). For a non-empty machine id that no machine of the fleet
  has, \<open>generate_data\<close> raises the ValueError "Machine ... not found" and leaves
  the fleet unchanged. \<open>perform_maintenance\<close> with an id absent from the fleet
  returns False, raises nothing and leaves the fleet unchanged; with an id present
  it returns True.
\<close>

theorem C5_unknown_machine_id:
  "(mid \<noteq> [] \<and> mid \<notin> machine_id ` set (machines sim) \<longrightarrow>
      generate_data gs (Some mid) sim =
        (Inl (ValueError (''Machine '' @ mid @ '' not found'')), sim)) \<and>
   (mid \<notin> machine_id ` set (machines sim) \<longrightarrow> perform_maintenance s mid sim = (False, sim)) \<and>
   (mid \<in> machine_id ` set (machines sim) \<longrightarrow> fst (perform_maintenance s mid sim) = True)"
  using generate_data_unknown [of mid sim gs] perform_maintenance_unknown [of mid sim s]
    perform_maintenance_known [of mid sim s]
  by blast

theorem C5_unknown_machine_id_witness:
  "generate_data clock_example (Some ''M999'') (fleet_example 2) =
     (Inl (ValueError ''Machine M999 not found''), fleet_example 2) \<and>
   perform_maintenance reset_draws_example ''M999'' (fleet_example 2) = (False, fleet_example 2) \<and>
   fst (perform_maintenance reset_draws_example ''M002'' (fleet_example 2)) = True"
  using C5_unknown_machine_id [of "''M999''" "fleet_example 2" clock_example reset_draws_example]
    C5_unknown_machine_id [of "''M002''" "fleet_example 2" clock_example reset_draws_example]
  by (simp add: example_ids)

theorem C5_empty_id_not_rejected:
  "[] \<notin> machine_id ` set (machines (fleet_example 2)) \<and>
   fst (generate_data clock_example (Some []) (fleet_example 2)) =
     Inr (DictList
       [reading_example ''M001'' ''2024-01-01T00:00:00.000100'',
        reading_example ''M002'' ''2024-01-01T00:00:00.000250''])"
  by (simp add: example_ids generate_data_def generate_fleet_result generate_all_example)

lemma generate_all_nth:
  "i < length ms \<Longrightarrow>
   fst (generate_all gs k ms) ! i = fst (generate_sensor_data (gs (k + i)) (ms ! i))"
proof (induction ms arbitrary: i k)
  case Nil
  then show ?case by simp
next
  case (Cons m ms)
  show ?case
  proof (cases i)
    case 0
    then show ?thesis by (simp add: split_beta)
  next
    case (Suc j)
    with Cons.prems have "j < length ms" by simp
    from Cons.IH [OF this, of "Suc k"] Suc show ?thesis by (simp add: split_beta)
  qed
qed

lemma generate_all_nth_state:
  "i < length ms \<Longrightarrow>
   snd (generate_all gs k ms) ! i = snd (generate_sensor_data (gs (k + i)) (ms ! i))"
proof (induction ms arbitrary: i k)
  case Nil
  then show ?case by simp
next
  case (Cons m ms)
  show ?case
  proof (cases i)
    case 0
    then show ?thesis by (simp add: split_beta)
  next
    case (Suc j)
    with Cons.prems have "j < length ms" by simp
    from Cons.IH [OF this, of "Suc k"] Suc show ?thesis by (simp add: split_beta)
  qed
qed

lemma generate_fleet_state:
  "machines (snd (generate_fleet gs sim)) = snd (generate_all gs 0 (machines sim))"
  by (simp add: generate_fleet_def split_beta)

text \<open>
  C10. With the empty string as machine id, \<open>generate_data\<close> does what it does
  without an argument, result and fleet afterwards included: it raises nothing and
  returns a list with one reading per machine, the \<open>i\<close>-th being the reading
  that machine \<open>i\<close> of the fleet generates with the \<open>i\<close>-th draws, and machine
  \<open>i\<close> is left as that generation leaves it. The empty string is the id of no
  machine the fleet constructor creates.
\<close>

theorem C10_empty_id_is_whole_fleet:
  "generate_data gs (Some []) sim = generate_data gs None sim \<and>
   (\<exists>rds. fst (generate_data gs (Some []) sim) = Inr (DictList rds) \<and>
      length rds = length (machines sim) \<and>
      length (machines (snd (generate_data gs (Some []) sim))) = length (machines sim) \<and>
      (\<forall>i<length (machines sim).
         rds ! i = fst (generate_sensor_data (gs i) (machines sim ! i)) \<and>
         machines (snd (generate_data gs (Some []) sim)) ! i =
           snd (generate_sensor_data (gs i) (machines sim ! i)))) \<and>
   [] \<notin> machine_id ` set (machines (DataSimulator_init n ks ds))"
proof -
  have eq: "generate_data gs (Some []) sim = generate_fleet gs sim"
    "generate_data gs None sim = generate_fleet gs sim"
    by (simp_all add: generate_data_def)
  have each: "\<forall>i<length (machines sim).
      fst (generate_all gs 0 (machines sim)) ! i = fst (generate_sensor_data (gs i) (machines sim ! i)) \<and>
      machines (snd (generate_fleet gs sim)) ! i = snd (generate_sensor_data (gs i) (machines sim ! i))"
    using generate_all_nth [of _ "machines sim" gs 0] generate_all_nth_state [of _ "machines sim" gs 0]
    by (simp add: generate_fleet_state)
  have "fst (generate_fleet gs sim) = Inr (DictList (fst (generate_all gs 0 (machines sim)))) \<and>
      length (fst (generate_all gs 0 (machines sim))) = length (machines sim) \<and>
      length (machines (snd (generate_fleet gs sim))) = length (machines sim)"
    by (simp add: generate_fleet_result generate_fleet_state generate_all_length)
  with each have "\<exists>rds. fst (generate_fleet gs sim) = Inr (DictList rds) \<and>
      length rds = length (machines sim) \<and>
      length (machines (snd (generate_fleet gs sim))) = length (machines sim) \<and>
      (\<forall>i<length (machines sim).
         rds ! i = fst (generate_sensor_data (gs i) (machines sim ! i)) \<and>
         machines (snd (generate_fleet gs sim)) ! i =
           snd (generate_sensor_data (gs i) (machines sim ! i)))"
    by blast
  with eq fleet_ids_nonempty [of n ks ds] show ?thesis by simp
qed

theorem C10_empty_id_is_whole_fleet_witness:
  "fst (generate_data clock_example (Some []) (fleet_example 2)) =
     Inr (DictList
       [reading_example ''M001'' ''2024-01-01T00:00:00.000100'',
        reading_example ''M002'' ''2024-01-01T00:00:00.000250'']) \<and>
   generate_data clock_example (Some []) (fleet_example 2) =
     generate_data clock_example None (fleet_example 2)"
proof -
  from C10_empty_id_is_whole_fleet [of clock_example "fleet_example 2"] obtain rds where
    r: "fst (generate_data clock_example (Some []) (fleet_example 2)) = Inr (DictList rds)" and
    len: "length rds = length (machines (fleet_example 2))" and
    each: "\<forall>i<length (machines (fleet_example 2)).
         rds ! i = fst (generate_sensor_data (clock_example i) (machines (fleet_example 2) ! i))"
    and same: "generate_data clock_example (Some []) (fleet_example 2) =
      generate_data clock_example None (fleet_example 2)"
    by blast
  from len have l2: "length rds = 2" by (simp add: fleet_example_machines)
  from each have r0: "rds ! 0 = reading_example ''M001'' ''2024-01-01T00:00:00.000100''"
    and r1: "rds ! 1 = reading_example ''M002'' ''2024-01-01T00:00:00.000250''"
    by (simp_all add: fleet_example_machines clock_example_def generate_example)
  have "rds = [reading_example ''M001'' ''2024-01-01T00:00:00.000100'',
               reading_example ''M002'' ''2024-01-01T00:00:00.000250'']"
    using l2 r0 r1 by (intro nth_equalityI) (auto simp add: less_Suc_eq numeral_2_eq_2)
  with r same show ?thesis by simp
qed

section \<open>Predictions\<close>

lemma and_then_Inr: "and_then r f = Inr y \<longleftrightarrow> (\<exists>x. r = Inr x \<and> f x = Inr y)"
  by (cases r) (simp_all add: and_then_def)

lemma and_then_simps: "and_then (Inr x) f = f x" "and_then (Inl e) f = Inl e"
  by (simp_all add: and_then_def)

lemma predict_loop_Inr:
  "predict_loop mi ds = Inr ps \<Longrightarrow>
   length ps = length ds \<and> (\<forall>i<length ds. predict_one mi (ds ! i) = Inr (ps ! i))"
proof (induction ds arbitrary: ps)
  case Nil
  then show ?case by simp
next
  case (Cons d ds)
  from Cons.prems obtain r rs where r: "predict_one mi d = Inr r"
    and rs: "predict_loop mi ds = Inr rs" and ps: "ps = r # rs"
    by (auto simp add: and_then_Inr)
  from Cons.IH [OF rs] have ih: "length rs = length ds"
    "\<forall>i<length ds. predict_one mi (ds ! i) = Inr (rs ! i)" by simp_all
  show ?case
  proof (intro conjI allI impI)
    show "length ps = length (d # ds)" using ih(1) ps by simp
  next
    fix i assume "i < length (d # ds)"
    then show "predict_one mi ((d # ds) ! i) = Inr (ps ! i)"
      using r ih(2) ps by (cases i) simp_all
  qed
qed

lemma predict_loop_all:
  "(\<forall>d\<in>set ds. \<exists>r. predict_one mi d = Inr r) \<Longrightarrow> \<exists>ps. predict_loop mi ds = Inr ps"
  by (induction ds) (auto simp add: and_then_simps)

lemma predict_Inr:
  assumes "predict mi input = Inr out"
  shows "predict_loop mi (dicts_of input) = Inr (results_of out) \<and> model_loaded mi \<and>
         (case out of Result r \<Rightarrow> length (dicts_of input) = 1 | Results rs \<Rightarrow> 1 < length rs)"
proof -
  from assms have loaded: "model_loaded mi" by (auto simp add: predict_def split: if_splits)
  from assms loaded obtain ps where ps: "predict_loop mi (dicts_of input) = Inr ps"
    and out: "(if 1 < length ps then Inr (Results ps)
               else (case ps of [] \<Rightarrow> Inl IndexError | p # rest \<Rightarrow> Inr (Result p))) = Inr out"
    by (auto simp add: predict_def dicts_of_def and_then_Inr)
  from predict_loop_Inr [OF ps] have len: "length ps = length (dicts_of input)" by simp
  show ?thesis
  proof (cases "1 < length ps")
    case True
    with out have "out = Results ps" by simp
    with ps loaded True show ?thesis by (simp add: results_of_def)
  next
    case False
    with out obtain p where "ps = [p]" "out = Result p"
      by (cases ps) (auto split: list.splits)
    with ps loaded len show ?thesis by (simp add: results_of_def)
  qed
qed

lemma clean_value_id: "clean_value v = v"
  by (cases v) simp_all

lemma predict_one_Inr:
  assumes "predict_one mi data = Inr r"
  shows "\<exists>features prediction p0 p1.
           preprocess_input mi data = Inr features \<and>
           model_predict mi features = Inr prediction \<and>
           model_predict_proba mi features = Inr (p0, p1) \<and>
           res_alert r = (FAILURE_THRESHOLD \<le> p1) \<and>
           res_health_status r = get_health_status p1 \<and>
           res_sensor_data r = data"
proof -
  from assms obtain features prediction probability where
    f: "preprocess_input mi data = Inr features" and
    p: "model_predict mi features = Inr prediction" and
    q: "model_predict_proba mi features = Inr probability" and
    r: "r = \<lparr>res_machine_id = dict_get_default data ''machine_id'' (PyStr ''Unknown''),
               res_prediction = prediction,
               res_failure_probability = py_round (snd probability) 4,
               res_normal_probability = py_round (fst probability) 4,
               res_health_status = get_health_status (snd probability),
               res_sensor_data = map (\<lambda>(key, v). (key, clean_value v)) data,
               res_alert = (FAILURE_THRESHOLD \<le> snd probability)\<rparr>"
    unfolding predict_one_def by (auto simp add: and_then_Inr Let_def)
  have "map (\<lambda>(key, v). (key, clean_value v)) data = data"
    by (induction data) (auto simp add: clean_value_id)
  with f p q r show ?thesis by (cases probability) auto
qed

lemma predict_one_example:
  "predict_one model_example (reading_example mid t) = Inr (result_example mid t)"
  apply (simp add: predict_one_def preprocess_input_def build_features_def model_example_def reading_example_def result_example_def
     and_then_simps Let_def dict_get_def py_or_def dict_get_default_def get_health_status_eq FAILURE_THRESHOLD_def py_round_def)
  apply (simp add: rint_def Let_def)
  done

lemma get_real_time_predictions_eq:
  "fst (get_real_time_predictions gs svc) =
     predict (model_inference svc) (DictList (fst (generate_all gs 0 (machines (simulator svc)))))"
  by (simp add: get_real_time_predictions_def generate_data_def generate_fleet_def split_beta)

lemma model_example_loaded: "model_loaded model_example"
  by (simp add: model_example_def)

lemma predict_one_fields:
  assumes "predict_one mi data = Inr r"
  shows "\<exists>features prediction p0 p1.
           preprocess_input mi data = Inr features \<and>
           model_predict mi features = Inr prediction \<and>
           model_predict_proba mi features = Inr (p0, p1) \<and>
           res_prediction r = prediction \<and>
           res_failure_probability r = py_round p1 4 \<and>
           res_normal_probability r = py_round p0 4 \<and>
           res_alert r = (FAILURE_THRESHOLD \<le> p1) \<and>
           res_health_status r = get_health_status p1 \<and>
           res_sensor_data r = data"
proof -
  from assms obtain features prediction probability where
    f: "preprocess_input mi data = Inr features" and
    p: "model_predict mi features = Inr prediction" and
    q: "model_predict_proba mi features = Inr probability" and
    r: "r = \<lparr>res_machine_id = dict_get_default data ''machine_id'' (PyStr ''Unknown''),
               res_prediction = prediction,
               res_failure_probability = py_round (snd probability) 4,
               res_normal_probability = py_round (fst probability) 4,
               res_health_status = get_health_status (snd probability),
               res_sensor_data = map (\<lambda>(key, v). (key, clean_value v)) data,
               res_alert = (FAILURE_THRESHOLD \<le> snd probability)\<rparr>"
    unfolding predict_one_def by (auto simp add: and_then_Inr Let_def)
  have "map (\<lambda>(key, v). (key, clean_value v)) data = data"
    by (induction data) (auto simp add: clean_value_id)
  with f p q r show ?thesis by (cases probability) auto
qed

lemma round4_threshold: "0.6 \<le> p \<Longrightarrow> 0.6 \<le> py_round p 4"
  using py_round_lower [of 6000 4 p] by simp

lemma preprocess_bracketed:
  "preprocess_input (model_example\<lparr>model_predict := f, model_predict_proba := g\<rparr>)
     (reading_bracketed (PyInt 150)) =
     Inr [PyFloat 298.1, PyFloat 308.6, PyInt 1551, PyFloat 42.8, PyInt 150, PyInt 2,
          PyFloat 10.5, PyFloat 66.3828]"
  "preprocess_input (model_example\<lparr>model_predict := f, model_predict_proba := g\<rparr>)
     (reading_bracketed (PyInt 20)) =
     Inr [PyFloat 298.1, PyFloat 308.6, PyInt 1551, PyFloat 42.8, PyInt 20, PyInt 2,
          PyFloat 10.5, PyFloat 66.3828]"
  by (simp_all add: preprocess_input_def build_features_def model_example_def
      reading_bracketed_def and_then_simps Let_def dict_get_def py_or_def)

lemma round4_examples:
  "py_round (3 / 5) 4 = 3 / 5" "py_round (2 / 5) 4 = 2 / 5"
  "py_round (9 / 10) 4 = 9 / 10" "py_round (1 / 10) 4 = 1 / 10"
  "py_round (14999 / 25000) 4 = 3 / 5" "py_round (10001 / 25000) 4 = 2 / 5"
  by (simp_all add: py_round_def rint_def Let_def)

lemma dict_get_machine_id:
  "dict_get_default (reading_bracketed w) ''machine_id'' (PyStr ''Unknown'') = PyStr ''M001''"
  by (simp add: dict_get_default_def reading_bracketed_def)

lemma clean_reading: "map (\<lambda>(key, v). (key, clean_value v)) data = data"
  by (induction data) (auto simp add: clean_value_id)

lemma predict_one_wear_rule:
  "predict_one model_wear_rule (reading_bracketed (PyInt 150)) =
     Inr (result_for (PyInt 150) 1 0.6 0.4 ''MAINTENANCE REQUIRED'' True)"
  "predict_one model_wear_rule (reading_bracketed (PyInt 20)) =
     Inr (result_for (PyInt 20) 0 0.1 0.9 ''HEALTHY'' False)"
  by (simp_all add: predict_one_def model_wear_rule_def preprocess_bracketed and_then_simps
      Let_def round4_examples dict_get_machine_id clean_reading get_health_status_eq
      FAILURE_THRESHOLD_def result_for_def)

lemma predict_one_near_threshold:
  "predict_one model_near_threshold (reading_bracketed (PyInt 150)) =
     Inr (result_for (PyInt 150) 0 0.6 0.4 ''RISK'' False)"
  by (simp add: predict_one_def model_near_threshold_def preprocess_bracketed and_then_simps
      Let_def round4_examples dict_get_machine_id clean_reading get_health_status_eq
      FAILURE_THRESHOLD_def result_for_def)

lemma loaded_examples: "model_loaded model_wear_rule" "model_loaded model_near_threshold"
  by (simp_all add: model_wear_rule_def model_near_threshold_def model_example_def)

lemma predict_wear_rule:
  "predict model_wear_rule
     (DictList [reading_bracketed (PyInt 150), reading_bracketed (PyInt 20)]) =
     Inr (Results [result_for (PyInt 150) 1 0.6 0.4 ''MAINTENANCE REQUIRED'' True,
                   result_for (PyInt 20) 0 0.1 0.9 ''HEALTHY'' False])"
  by (simp add: predict_def loaded_examples predict_one_wear_rule and_then_simps)

text \<open>
  C2 (as the code has it). \<open>predict\<close> returns one result per input dictionary,
  in order. The alert flag of result \<open>i\<close> is true exactly when the failure
  probability the classifier gives for dictionary \<open>i\<close> is at least
  \<open>FAILURE_THRESHOLD\<close>, which is 0.6; the flag is that comparison alone, and the
  band of the result is computed from the same probability by
  \<open>get_health_status\<close>. At probability exactly 0.6 the alert is true and the band
  is MAINTENANCE REQUIRED. The failure probability the result carries is the
  classifier's probability rounded to four decimals: an alert implies that the
  carried probability is at least 0.6, but not the other way round.
\<close>

theorem C2_alert_iff_threshold:
  assumes "predict mi input = Inr out" and "i < length (dicts_of input)"
  shows "length (results_of out) = length (dicts_of input) \<and>
         (\<exists>features p0 p1.
            preprocess_input mi (dicts_of input ! i) = Inr features \<and>
            model_predict_proba mi features = Inr (p0, p1) \<and>
            res_sensor_data (results_of out ! i) = dicts_of input ! i \<and>
            res_failure_probability (results_of out ! i) = py_round p1 4 \<and>
            res_alert (results_of out ! i) = (FAILURE_THRESHOLD \<le> p1) \<and>
            FAILURE_THRESHOLD = 0.6 \<and>
            res_health_status (results_of out ! i) = get_health_status p1 \<and>
            (p1 = 0.6 \<longrightarrow>
               res_alert (results_of out ! i) \<and>
               res_health_status (results_of out ! i) = ''MAINTENANCE REQUIRED'') \<and>
            (res_alert (results_of out ! i) \<longrightarrow>
               0.6 \<le> res_failure_probability (results_of out ! i)))"
proof -
  let ?r = "results_of out ! i"
  from predict_Inr [OF assms(1)]
  have loop: "predict_loop mi (dicts_of input) = Inr (results_of out)" by simp
  from predict_loop_Inr [OF loop] have len: "length (results_of out) = length (dicts_of input)"
    and each: "\<forall>j<length (dicts_of input). predict_one mi (dicts_of input ! j) = Inr (results_of out ! j)"
    by simp_all
  from each assms(2) have one: "predict_one mi (dicts_of input ! i) = Inr ?r" by simp
  from predict_one_fields [OF one] obtain features p0 p1 where
    f: "preprocess_input mi (dicts_of input ! i) = Inr features" and
    q: "model_predict_proba mi features = Inr (p0, p1)" and
    fp: "res_failure_probability ?r = py_round p1 4" and
    a: "res_alert ?r = (FAILURE_THRESHOLD \<le> p1)" and
    h: "res_health_status ?r = get_health_status p1" and
    s: "res_sensor_data ?r = dicts_of input ! i"
    by blast
  have edge: "p1 = 0.6 \<longrightarrow> res_alert ?r \<and> res_health_status ?r = ''MAINTENANCE REQUIRED''"
    using a h by (simp add: FAILURE_THRESHOLD_def get_health_status_eq)
  have up: "res_alert ?r \<longrightarrow> 0.6 \<le> res_failure_probability ?r"
    using a fp round4_threshold [of p1] by (simp add: FAILURE_THRESHOLD_def)
  have t: "FAILURE_THRESHOLD = 0.6" by (simp add: FAILURE_THRESHOLD_def)
  from f q s fp a t h edge up have "\<exists>features p0 p1.
            preprocess_input mi (dicts_of input ! i) = Inr features \<and>
            model_predict_proba mi features = Inr (p0, p1) \<and>
            res_sensor_data ?r = dicts_of input ! i \<and>
            res_failure_probability ?r = py_round p1 4 \<and>
            res_alert ?r = (FAILURE_THRESHOLD \<le> p1) \<and>
            FAILURE_THRESHOLD = 0.6 \<and>
            res_health_status ?r = get_health_status p1 \<and>
            (p1 = 0.6 \<longrightarrow> res_alert ?r \<and> res_health_status ?r = ''MAINTENANCE REQUIRED'') \<and>
            (res_alert ?r \<longrightarrow> 0.6 \<le> res_failure_probability ?r)"
    by blast
  with len show ?thesis by blast
qed

theorem C2_alert_iff_threshold_witness:
  "predict model_wear_rule
     (DictList [reading_bracketed (PyInt 150), reading_bracketed (PyInt 20)]) =
     Inr (Results [result_for (PyInt 150) 1 0.6 0.4 ''MAINTENANCE REQUIRED'' True,
                   result_for (PyInt 20) 0 0.1 0.9 ''HEALTHY'' False]) \<and>
   (\<exists>features p0 p1.
      preprocess_input model_wear_rule (reading_bracketed (PyInt 20)) = Inr features \<and>
      model_predict_proba model_wear_rule features = Inr (p0, p1) \<and>
      res_sensor_data (result_for (PyInt 20) 0 0.1 0.9 ''HEALTHY'' False) =
        reading_bracketed (PyInt 20) \<and>
      res_failure_probability (result_for (PyInt 20) 0 0.1 0.9 ''HEALTHY'' False) = py_round p1 4 \<and>
      res_alert (result_for (PyInt 20) 0 0.1 0.9 ''HEALTHY'' False) = (FAILURE_THRESHOLD \<le> p1) \<and>
      res_health_status (result_for (PyInt 20) 0 0.1 0.9 ''HEALTHY'' False) = get_health_status p1) \<and>
   (\<exists>features p0 p1.
      preprocess_input model_wear_rule (reading_bracketed (PyInt 150)) = Inr features \<and>
      model_predict_proba model_wear_rule features = Inr (p0, p1) \<and> p1 = 0.6 \<and>
      res_alert (result_for (PyInt 150) 1 0.6 0.4 ''MAINTENANCE REQUIRED'' True) \<and>
      res_health_status (result_for (PyInt 150) 1 0.6 0.4 ''MAINTENANCE REQUIRED'' True) =
        ''MAINTENANCE REQUIRED'')"
proof -
  let ?input = "DictList [reading_bracketed (PyInt 150), reading_bracketed (PyInt 20)]"
  have i0: "0 < length (dicts_of ?input)" and i1: "1 < length (dicts_of ?input)"
    by (simp_all add: dicts_of_def)
  note a = C2_alert_iff_threshold [OF predict_wear_rule i1]
  note b = C2_alert_iff_threshold [OF predict_wear_rule i0]
  have second: "\<exists>features p0 p1.
      preprocess_input model_wear_rule (reading_bracketed (PyInt 20)) = Inr features \<and>
      model_predict_proba model_wear_rule features = Inr (p0, p1) \<and>
      res_sensor_data (result_for (PyInt 20) 0 0.1 0.9 ''HEALTHY'' False) =
        reading_bracketed (PyInt 20) \<and>
      res_failure_probability (result_for (PyInt 20) 0 0.1 0.9 ''HEALTHY'' False) = py_round p1 4 \<and>
      res_alert (result_for (PyInt 20) 0 0.1 0.9 ''HEALTHY'' False) = (FAILURE_THRESHOLD \<le> p1) \<and>
      res_health_status (result_for (PyInt 20) 0 0.1 0.9 ''HEALTHY'' False) = get_health_status p1"
    using a by (simp add: dicts_of_def results_of_def) blast
  from b obtain features p0 p1 where
    f: "preprocess_input model_wear_rule (reading_bracketed (PyInt 150)) = Inr features" and
    q: "model_predict_proba model_wear_rule features = Inr (p0, p1)" and
    e: "p1 = 0.6 \<longrightarrow>
         res_alert (result_for (PyInt 150) 1 0.6 0.4 ''MAINTENANCE REQUIRED'' True) \<and>
         res_health_status (result_for (PyInt 150) 1 0.6 0.4 ''MAINTENANCE REQUIRED'' True) =
           ''MAINTENANCE REQUIRED''"
    by (simp add: dicts_of_def results_of_def) blast
  from f have "features = [PyFloat 298.1, PyFloat 308.6, PyInt 1551, PyFloat 42.8, PyInt 150,
      PyInt 2, PyFloat 10.5, PyFloat 66.3828]"
    by (simp add: model_wear_rule_def preprocess_bracketed)
  with q have p1: "p1 = 0.6" by (simp add: model_wear_rule_def)
  with f q e have first: "\<exists>features p0 p1.
      preprocess_input model_wear_rule (reading_bracketed (PyInt 150)) = Inr features \<and>
      model_predict_proba model_wear_rule features = Inr (p0, p1) \<and> p1 = 0.6 \<and>
      res_alert (result_for (PyInt 150) 1 0.6 0.4 ''MAINTENANCE REQUIRED'' True) \<and>
      res_health_status (result_for (PyInt 150) 1 0.6 0.4 ''MAINTENANCE REQUIRED'' True) =
        ''MAINTENANCE REQUIRED''"
    by blast
  from predict_wear_rule second first show ?thesis by blast
qed

theorem C2_rounded_probability_at_threshold:
  "model_predict_proba model_near_threshold
     [PyFloat 298.1, PyFloat 308.6, PyInt 1551, PyFloat 42.8, PyInt 150, PyInt 2,
      PyFloat 10.5, PyFloat 66.3828] = Inr (0.40004, 0.59996) \<and>
   predict model_near_threshold (Dict (reading_bracketed (PyInt 150))) =
     Inr (Result (result_for (PyInt 150) 0 0.6 0.4 ''RISK'' False)) \<and>
   res_failure_probability (result_for (PyInt 150) 0 0.6 0.4 ''RISK'' False) = FAILURE_THRESHOLD \<and>
   res_alert (result_for (PyInt 150) 0 0.6 0.4 ''RISK'' False) = False \<and>
   res_health_status (result_for (PyInt 150) 0 0.6 0.4 ''RISK'' False) = ''RISK''"
  by (simp add: predict_def loaded_examples predict_one_near_threshold and_then_simps)
    (simp add: model_near_threshold_def result_for_def FAILURE_THRESHOLD_def)

text \<open>
  C9. \<open>predict\<close> returns a list of results only when there is more than one
  prediction. One dictionary, or a list of one dictionary, gives the bare result
  record; so the fleet-wide call gives a bare record for a fleet of one machine and
  a list for a larger fleet.
\<close>

theorem C9_predict_result_shape:
  "(predict mi input = Inr (Results rs) \<longrightarrow> 1 < length rs) \<and>
   (model_loaded mi \<and> predict_one mi d = Inr p \<longrightarrow>
      predict mi (Dict d) = Inr (Result p) \<and> predict mi (DictList [d]) = Inr (Result p)) \<and>
   (model_loaded mi \<and> predict_loop mi ds = Inr ps \<and> 1 < length ds \<longrightarrow>
      predict mi (DictList ds) = Inr (Results ps) \<and> length ps = length ds) \<and>
   (model_loaded (model_inference svc) \<and> machines (simulator svc) = [m] \<and>
    predict_one (model_inference svc) (fst (generate_sensor_data (gs 0) m)) = Inr p \<longrightarrow>
      fst (get_real_time_predictions gs svc) = Inr (Result p)) \<and>
   (model_loaded (model_inference svc) \<and> 1 < length (machines (simulator svc)) \<and>
    predict_loop (model_inference svc) (fst (generate_all gs 0 (machines (simulator svc)))) = Inr ps \<longrightarrow>
      fst (get_real_time_predictions gs svc) = Inr (Results ps) \<and>
      length ps = length (machines (simulator svc)))"
proof (intro conjI impI)
  assume "predict mi input = Inr (Results rs)"
  from predict_Inr [OF this] show "1 < length rs" by simp
next
  assume a: "model_loaded mi \<and> predict_one mi d = Inr p"
  then show "predict mi (Dict d) = Inr (Result p)"
    by (simp add: predict_def and_then_simps)
next
  assume a: "model_loaded mi \<and> predict_one mi d = Inr p"
  then show "predict mi (DictList [d]) = Inr (Result p)"
    by (simp add: predict_def and_then_simps)
next
  assume a: "model_loaded mi \<and> predict_loop mi ds = Inr ps \<and> 1 < length ds"
  with predict_loop_Inr [of mi ds ps] have len: "length ps = length ds" by simp
  with a show "predict mi (DictList ds) = Inr (Results ps)"
    by (simp add: predict_def and_then_simps)
  from len show "length ps = length ds" .
next
  assume a: "model_loaded (model_inference svc) \<and> machines (simulator svc) = [m] \<and>
    predict_one (model_inference svc) (fst (generate_sensor_data (gs 0) m)) = Inr p"
  then show "fst (get_real_time_predictions gs svc) = Inr (Result p)"
    by (simp add: get_real_time_predictions_eq split_beta predict_def and_then_simps)
next
  assume a: "model_loaded (model_inference svc) \<and> 1 < length (machines (simulator svc)) \<and>
    predict_loop (model_inference svc) (fst (generate_all gs 0 (machines (simulator svc)))) = Inr ps"
  with predict_loop_Inr [of "model_inference svc" "fst (generate_all gs 0 (machines (simulator svc)))" ps]
  have len: "length ps = length (machines (simulator svc))"
    by (simp add: generate_all_length)
  with a show "fst (get_real_time_predictions gs svc) = Inr (Results ps)"
    by (simp add: get_real_time_predictions_eq predict_def and_then_simps)
  from len show "length ps = length (machines (simulator svc))" .
qed

theorem C9_predict_result_shape_witness:
  "predict model_example (Dict (reading_example ''M001'' ''t'')) =
     Inr (Result (result_example ''M001'' ''t'')) \<and>
   predict model_example (DictList [reading_example ''M001'' ''t'']) =
     Inr (Result (result_example ''M001'' ''t'')) \<and>
   predict model_example (DictList [reading_example ''M001'' ''t'', reading_example ''M002'' ''u'']) =
     Inr (Results [result_example ''M001'' ''t'', result_example ''M002'' ''u'']) \<and>
   1 < length [result_example ''M001'' ''t'', result_example ''M002'' ''u''] \<and>
   fst (get_real_time_predictions clock_example
          \<lparr>simulator = fleet_example 1, model_inference = model_example\<rparr>) =
     Inr (Result (result_example ''M001'' ''2024-01-01T00:00:00.000100'')) \<and>
   fst (get_real_time_predictions clock_example
          \<lparr>simulator = fleet_example 2, model_inference = model_example\<rparr>) =
     Inr (Results [result_example ''M001'' ''2024-01-01T00:00:00.000100'',
                   result_example ''M002'' ''2024-01-01T00:00:00.000250''])"
proof -
  let ?d = "reading_example ''M001'' ''t''" and ?p = "result_example ''M001'' ''t''"
  let ?ds = "[reading_example ''M001'' ''t'', reading_example ''M002'' ''u'']"
  let ?ps = "[result_example ''M001'' ''t'', result_example ''M002'' ''u'']"
  let ?one = "\<lparr>simulator = fleet_example 1, model_inference = model_example\<rparr>"
  let ?two = "\<lparr>simulator = fleet_example 2, model_inference = model_example\<rparr>"
  let ?r1 = "result_example ''M001'' ''2024-01-01T00:00:00.000100''"
  let ?r2 = "result_example ''M002'' ''2024-01-01T00:00:00.000250''"
  have h2: "model_loaded model_example \<and> predict_one model_example ?d = Inr ?p"
    by (simp add: model_example_loaded predict_one_example)
  have h3: "model_loaded model_example \<and> predict_loop model_example ?ds = Inr ?ps \<and> 1 < length ?ds"
    by (simp add: model_example_loaded predict_one_example and_then_simps)
  have h4: "model_loaded (model_inference ?one) \<and>
      machines (simulator ?one) = [machine_example ''M001''] \<and>
      predict_one (model_inference ?one)
        (fst (generate_sensor_data (clock_example 0) (machine_example ''M001''))) = Inr ?r1"
    by (simp add: model_example_loaded fleet_example_machines clock_example_def
        generate_example predict_one_example)
  have h5: "model_loaded (model_inference ?two) \<and> 1 < length (machines (simulator ?two)) \<and>
      predict_loop (model_inference ?two)
        (fst (generate_all clock_example 0 (machines (simulator ?two)))) = Inr [?r1, ?r2]"
    by (simp add: model_example_loaded generate_all_example predict_one_example and_then_simps)
      (simp add: fleet_example_machines)
  note a = C9_predict_result_shape [where mi = model_example and d = ?d and p = ?p
      and ds = ?ds and ps = ?ps and input = "DictList ?ds" and rs = ?ps
      and svc = ?one and m = "machine_example ''M001''" and gs = clock_example]
  note b = C9_predict_result_shape [where mi = model_example and d = ?d and p = ?r1
      and ds = ?ds and ps = "[?r1, ?r2]" and input = "DictList ?ds" and rs = ?ps
      and svc = ?one and m = "machine_example ''M001''" and gs = clock_example]
  note c = C9_predict_result_shape [where mi = model_example and d = ?d and p = ?p
      and ds = ?ds and ps = "[?r1, ?r2]" and input = "DictList ?ds" and rs = ?ps
      and svc = ?two and m = "machine_example ''M001''" and gs = clock_example]
  from a h2 have c2: "predict model_example (Dict ?d) = Inr (Result ?p)"
    "predict model_example (DictList [?d]) = Inr (Result ?p)" by blast+
  from a h3 have c3: "predict model_example (DictList ?ds) = Inr (Results ?ps)" by blast
  from a c3 have c1: "1 < length ?ps" by blast
  from b h4 have c4: "fst (get_real_time_predictions clock_example ?one) = Inr (Result ?r1)"
    by blast
  from c h5 have c5: "fst (get_real_time_predictions clock_example ?two) = Inr (Results [?r1, ?r2])"
    by blast
  from c1 c2 c3 c4 c5 show ?thesis by blast
qed

section \<open>Timestamps of a fleet-wide call\<close>

lemma timestamp_field: "map_of (fst (generate_sensor_data g m)) ''timestamp'' = Some (PyStr (now g))"
  by (simp add: generate_sensor_data_def Let_def)

lemma fleet_timestamps:
  assumes "fst (get_real_time_predictions gs svc) = Inr out" and "i < length (results_of out)"
  shows "length (results_of out) = length (machines (simulator svc)) \<and>
         map_of (res_sensor_data (results_of out ! i)) ''timestamp'' = Some (PyStr (now (gs i)))"
proof -
  let ?ms = "machines (simulator svc)"
  let ?rds = "fst (generate_all gs 0 ?ms)"
  from assms(1) have p: "predict (model_inference svc) (DictList ?rds) = Inr out"
    by (simp add: get_real_time_predictions_eq)
  from predict_Inr [OF p] have loop: "predict_loop (model_inference svc) ?rds = Inr (results_of out)"
    by (simp add: dicts_of_def)
  from predict_loop_Inr [OF loop] have len: "length (results_of out) = length ?rds"
    and each: "\<forall>j<length ?rds. predict_one (model_inference svc) (?rds ! j) = Inr (results_of out ! j)"
    by simp_all
  have lrds: "length ?rds = length ?ms" by (simp add: generate_all_length)
  from assms(2) len have i: "i < length ?rds" by simp
  with each have "predict_one (model_inference svc) (?rds ! i) = Inr (results_of out ! i)" by simp
  from predict_one_Inr [OF this] have "res_sensor_data (results_of out ! i) = ?rds ! i" by auto
  moreover have "?rds ! i = fst (generate_sensor_data (gs i) (?ms ! i))"
    using generate_all_nth [of i ?ms gs 0] i lrds by simp
  ultimately show ?thesis using len lrds by (simp add: timestamp_field)
qed

lemma fleet_predictions_example:
  "fst (get_real_time_predictions clock_example
          \<lparr>simulator = fleet_example 2, model_inference = model_example\<rparr>) =
     Inr (Results [result_example ''M001'' ''2024-01-01T00:00:00.000100'',
                   result_example ''M002'' ''2024-01-01T00:00:00.000250''])"
  by (simp add: get_real_time_predictions_eq generate_all_example predict_def
      model_example_loaded predict_one_example and_then_simps)

text \<open>
  C8 (as the code has it). In a fleet-wide call there is one result per machine, and
  the timestamp a result carries (in its echoed sensor data) is the clock reading
  taken when that machine's reading was generated: result \<open>i\<close> has the \<open>i\<close>-th
  clock reading of the call. The results share a timestamp only when the clock
  returns the same value at each reading.
\<close>

theorem C8_timestamp_per_reading:
  assumes "fst (get_real_time_predictions gs svc) = Inr out" and "i < length (results_of out)"
  shows "length (results_of out) = length (machines (simulator svc)) \<and>
         map_of (res_sensor_data (results_of out ! i)) ''timestamp'' = Some (PyStr (now (gs i)))"
  using assms by (rule fleet_timestamps)

theorem C8_timestamp_per_reading_witness:
  "fst (get_real_time_predictions clock_example
          \<lparr>simulator = fleet_example 2, model_inference = model_example\<rparr>) =
     Inr (Results [result_example ''M001'' ''2024-01-01T00:00:00.000100'',
                   result_example ''M002'' ''2024-01-01T00:00:00.000250'']) \<and>
   map_of (res_sensor_data (result_example ''M002'' ''2024-01-01T00:00:00.000250'')) ''timestamp'' =
     Some (PyStr (now (clock_example 1)))"
proof -
  have i: "1 < length (results_of (Results
      [result_example ''M001'' ''2024-01-01T00:00:00.000100'',
       result_example ''M002'' ''2024-01-01T00:00:00.000250'']))"
    by (simp add: results_of_def)
  from C8_timestamp_per_reading [OF fleet_predictions_example i] fleet_predictions_example
  show ?thesis by (simp add: results_of_def)
qed

theorem C8_timestamps_differ:
  "fst (get_real_time_predictions clock_example
          \<lparr>simulator = fleet_example 2, model_inference = model_example\<rparr>) =
     Inr (Results [result_example ''M001'' ''2024-01-01T00:00:00.000100'',
                   result_example ''M002'' ''2024-01-01T00:00:00.000250'']) \<and>
   map_of (res_sensor_data (result_example ''M001'' ''2024-01-01T00:00:00.000100'')) ''timestamp'' =
     Some (PyStr ''2024-01-01T00:00:00.000100'') \<and>
   map_of (res_sensor_data (result_example ''M002'' ''2024-01-01T00:00:00.000250'')) ''timestamp'' =
     Some (PyStr ''2024-01-01T00:00:00.000250'')"
  by (simp add: fleet_predictions_example) (simp add: result_example_def reading_example_def)

section \<open>Preprocessing: missing fields, column order, key spellings\<close>

lemma py_sub_err: "\<not> is_number a \<or> \<not> is_number b \<Longrightarrow> py_sub a b = Inl TypeError"
  by (cases a; cases b) (simp_all add: is_number_def)

lemma py_sub_ok: "is_number a \<Longrightarrow> is_number b \<Longrightarrow> \<exists>x. py_sub a b = Inr x \<and> is_number x"
  by (cases a; cases b) (simp_all add: is_number_def)

lemma power_err:
  "\<not> is_number a \<or> \<not> is_number b \<Longrightarrow>
   and_then (py_mul a b) (\<lambda>product. and_then (py_truediv product (PyInt 1000)) f) = Inl TypeError"
  by (cases a; cases b) (simp_all add: is_number_def and_then_simps)

lemma missing_resolves_None:
  "field_missing data k1 k2 \<Longrightarrow> py_or (dict_get data k1) (dict_get data k2) = PyNone"
  by (simp add: field_missing_def dict_get_def py_or_def)

lemma build_features_no_type:
  "map_of data ''Type'' = None \<Longrightarrow> build_features mi data = Inl (KeyError ''Type'')"
  by (simp add: build_features_def)

lemma build_features_type_error:
  assumes "map_of data ''Type'' = Some ty" and "encoder_transform mi ty = Inr te"
    and "\<not> is_number (py_or (dict_get data ''Air temperature [K]'') (dict_get data ''Air_temperature_K'')) \<or>
         \<not> is_number (py_or (dict_get data ''Process temperature [K]'') (dict_get data ''Process_temperature_K'')) \<or>
         \<not> is_number (py_or (dict_get data ''Rotational speed [rpm]'') (dict_get data ''Rotational_speed_rpm'')) \<or>
         \<not> is_number (py_or (dict_get data ''Torque [Nm]'') (dict_get data ''Torque_Nm''))"
  shows "build_features mi data = Inl TypeError"
proof -
  let ?air = "py_or (dict_get data ''Air temperature [K]'') (dict_get data ''Air_temperature_K'')"
  let ?process = "py_or (dict_get data ''Process temperature [K]'') (dict_get data ''Process_temperature_K'')"
  let ?speed = "py_or (dict_get data ''Rotational speed [rpm]'') (dict_get data ''Rotational_speed_rpm'')"
  let ?torque = "py_or (dict_get data ''Torque [Nm]'') (dict_get data ''Torque_Nm'')"
  show ?thesis
  proof (cases "is_number ?air \<and> is_number ?process")
    case False
    then have "py_sub ?process ?air = Inl TypeError" by (intro py_sub_err) auto
    then show ?thesis using assms(1,2)
      by (simp add: build_features_def and_then_simps Let_def)
  next
    case True
    then obtain x where x: "py_sub ?process ?air = Inr x" using py_sub_ok by blast
    from True assms(3) have "\<not> is_number ?torque \<or> \<not> is_number ?speed" by auto
    from power_err [OF this] x show ?thesis using assms(1,2)
      by (simp add: build_features_def and_then_simps Let_def)
  qed
qed

lemma py_sub_num:
  "is_number a \<Longrightarrow> is_number b \<Longrightarrow>
   \<exists>x. py_sub a b = Inr x \<and> is_number x \<and> num_of x = num_of a - num_of b"
  by (cases a; cases b) (simp_all add: is_number_def num_of_def)

lemma power_num:
  "is_number a \<Longrightarrow> is_number b \<Longrightarrow>
   \<exists>z y. py_mul a b = Inr z \<and> py_truediv z (PyInt 1000) = Inr y \<and> is_number y \<and>
         num_of y = num_of a * num_of b / 1000"
  by (cases a; cases b) (simp_all add: is_number_def num_of_def)

lemma build_features_complete:
  assumes "map_of data ''Type'' = Some ty" and "encoder_transform mi ty = Inr te"
    and "air = py_or (dict_get data ''Air temperature [K]'') (dict_get data ''Air_temperature_K'')"
    and "process = py_or (dict_get data ''Process temperature [K]'') (dict_get data ''Process_temperature_K'')"
    and "speed = py_or (dict_get data ''Rotational speed [rpm]'') (dict_get data ''Rotational_speed_rpm'')"
    and "torque = py_or (dict_get data ''Torque [Nm]'') (dict_get data ''Torque_Nm'')"
    and "wear = py_or (dict_get data ''Tool wear [min]'') (dict_get data ''Tool_wear_min'')"
    and "is_number air" "is_number process" "is_number speed" "is_number torque"
  shows "\<exists>temp_diff power.
           is_number temp_diff \<and> num_of temp_diff = num_of process - num_of air \<and>
           is_number power \<and> num_of power = num_of torque * num_of speed / 1000 \<and>
           build_features mi data =
             Inr [(''Air_temperature_K'', air), (''Process_temperature_K'', process),
                  (''Rotational_speed_rpm'', speed), (''Torque_Nm'', torque),
                  (''Tool_wear_min'', wear), (''Type_encoded'', PyInt te),
                  (''Temp_diff'', temp_diff), (''Power'', power)]"
proof -
  from py_sub_num [OF assms(9,8)] obtain td where
    td: "py_sub process air = Inr td" "is_number td" "num_of td = num_of process - num_of air"
    by blast
  from power_num [OF assms(11,10)] obtain z pw where
    pw: "py_mul torque speed = Inr z" "py_truediv z (PyInt 1000) = Inr pw" "is_number pw"
      "num_of pw = num_of torque * num_of speed / 1000"
    by blast
  have "build_features mi data =
      Inr [(''Air_temperature_K'', air), (''Process_temperature_K'', process),
           (''Rotational_speed_rpm'', speed), (''Torque_Nm'', torque),
           (''Tool_wear_min'', wear), (''Type_encoded'', PyInt te),
           (''Temp_diff'', td), (''Power'', pw)]"
    using assms(1,2) td(1) pw(1,2)
    unfolding build_features_def assms(3-7) [symmetric] Let_def
    by (simp add: and_then_simps)
  with td pw show ?thesis by blast
qed

lemma select_columns_Inr:
  "select_columns cs fs = Inr v \<Longrightarrow>
   length v = length cs \<and> (\<forall>i<length cs. map_of fs (cs ! i) = Some (v ! i))"
proof (induction cs arbitrary: v)
  case Nil
  then show ?case by simp
next
  case (Cons c cs)
  from Cons.prems obtain x vs where x: "map_of fs c = Some x"
    and vs: "select_columns cs fs = Inr vs" and v: "v = x # vs"
    by (auto simp add: and_then_Inr split: option.splits)
  from Cons.IH [OF vs] have ih: "length vs = length cs"
    "\<forall>i<length cs. map_of fs (cs ! i) = Some (vs ! i)" by simp_all
  show ?case
  proof (intro conjI allI impI)
    show "length v = length (c # cs)" using ih(1) v by simp
  next
    fix i assume "i < length (c # cs)"
    then show "map_of fs ((c # cs) ! i) = Some (v ! i)"
      using x ih(2) v by (cases i) simp_all
  qed
qed

lemma select_columns_total:
  "set cs \<subseteq> fst ` set fs \<Longrightarrow> \<exists>v. select_columns cs fs = Inr v"
proof (induction cs)
  case Nil
  then show ?case by simp
next
  case (Cons c cs)
  then obtain vs where vs: "select_columns cs fs = Inr vs" by auto
  from Cons.prems have "c \<in> fst ` set fs" by simp
  then obtain x where "map_of fs c = Some x"
    by (metis domD dom_map_of_conv_image_fst)
  with vs show ?case by (simp add: and_then_simps)
qed

lemma preprocess_order:
  assumes "preprocess_input mi data = Inr v"
  shows "\<exists>fs. build_features mi data = Inr fs \<and> length v = length (feature_columns mi) \<and>
          (\<forall>i<length (feature_columns mi). map_of fs (feature_columns mi ! i) = Some (v ! i))"
proof -
  from assms obtain fs where fs: "build_features mi data = Inr fs"
    and sel: "select_columns (feature_columns mi) fs = Inr v"
    by (auto simp add: preprocess_input_def and_then_Inr)
  from select_columns_Inr [OF sel] fs show ?thesis by simp
qed

lemma preprocess_no_wear:
  "preprocess_input model_example reading_without_wear =
     Inr [PyFloat 298.1, PyFloat 308.6, PyInt 1551, PyFloat 42.8, PyNone, PyInt 2,
          PyFloat 10.5, PyFloat 66.3828]"
  by (simp add: preprocess_input_def build_features_def model_example_def
      reading_without_wear_def and_then_simps Let_def dict_get_def py_or_def)

lemma preprocess_no_air:
  "preprocess_input model_example reading_without_air = Inl TypeError"
  by (simp add: preprocess_input_def build_features_def model_example_def
      reading_without_air_def and_then_simps Let_def dict_get_def py_or_def)

lemma preprocess_complete:
  assumes "map_of data ''Type'' = Some ty" and "encoder_transform mi ty = Inr te"
    and "air = py_or (dict_get data ''Air temperature [K]'') (dict_get data ''Air_temperature_K'')"
    and "process = py_or (dict_get data ''Process temperature [K]'') (dict_get data ''Process_temperature_K'')"
    and "speed = py_or (dict_get data ''Rotational speed [rpm]'') (dict_get data ''Rotational_speed_rpm'')"
    and "torque = py_or (dict_get data ''Torque [Nm]'') (dict_get data ''Torque_Nm'')"
    and "wear = py_or (dict_get data ''Tool wear [min]'') (dict_get data ''Tool_wear_min'')"
    and "is_number air" "is_number process" "is_number speed" "is_number torque"
    and "set (feature_columns mi) \<subseteq> set feature_names"
  shows "\<exists>w temp_diff power.
           is_number temp_diff \<and> num_of temp_diff = num_of process - num_of air \<and>
           is_number power \<and> num_of power = num_of torque * num_of speed / 1000 \<and>
           preprocess_input mi data = Inr w \<and> length w = length (feature_columns mi) \<and>
           (\<forall>i<length (feature_columns mi).
              map_of [(''Air_temperature_K'', air), (''Process_temperature_K'', process),
                      (''Rotational_speed_rpm'', speed), (''Torque_Nm'', torque),
                      (''Tool_wear_min'', wear), (''Type_encoded'', PyInt te),
                      (''Temp_diff'', temp_diff), (''Power'', power)]
                (feature_columns mi ! i) = Some (w ! i))"
proof -
  from build_features_complete [OF assms(1-11)] obtain td pw where
    td: "is_number td" "num_of td = num_of process - num_of air" and
    pw: "is_number pw" "num_of pw = num_of torque * num_of speed / 1000" and
    fs: "build_features mi data =
      Inr [(''Air_temperature_K'', air), (''Process_temperature_K'', process),
           (''Rotational_speed_rpm'', speed), (''Torque_Nm'', torque),
           (''Tool_wear_min'', wear), (''Type_encoded'', PyInt te),
           (''Temp_diff'', td), (''Power'', pw)]" (is "_ = Inr ?fs")
    by blast
  have "fst ` set ?fs = set feature_names" by (simp add: feature_names_def)
  with assms(12) have "set (feature_columns mi) \<subseteq> fst ` set ?fs" by simp
  from select_columns_total [OF this] obtain w where
    w: "select_columns (feature_columns mi) ?fs = Inr w" by blast
  from select_columns_Inr [OF w] have len: "length w = length (feature_columns mi)"
    and each: "\<forall>i<length (feature_columns mi). map_of ?fs (feature_columns mi ! i) = Some (w ! i)"
    by simp_all
  have "preprocess_input mi data = Inr w"
    using fs w by (simp add: preprocess_input_def and_then_simps)
  with td pw len each show ?thesis by blast
qed

lemma resolved_bracketed:
  "py_or (dict_get (reading_bracketed w) ''Air temperature [K]'')
     (dict_get (reading_bracketed w) ''Air_temperature_K'') = PyFloat 298.1"
  "py_or (dict_get (reading_bracketed w) ''Process temperature [K]'')
     (dict_get (reading_bracketed w) ''Process_temperature_K'') = PyFloat 308.6"
  "py_or (dict_get (reading_bracketed w) ''Rotational speed [rpm]'')
     (dict_get (reading_bracketed w) ''Rotational_speed_rpm'') = PyInt 1551"
  "py_or (dict_get (reading_bracketed w) ''Torque [Nm]'')
     (dict_get (reading_bracketed w) ''Torque_Nm'') = PyFloat 42.8"
  "py_or (dict_get (reading_bracketed (PyInt 150)) ''Tool wear [min]'')
     (dict_get (reading_bracketed (PyInt 150)) ''Tool_wear_min'') = PyInt 150"
  by (simp_all add: reading_bracketed_def dict_get_def py_or_def)

lemma resolved_without_wear:
  "py_or (dict_get reading_without_wear ''Air temperature [K]'')
     (dict_get reading_without_wear ''Air_temperature_K'') = PyFloat 298.1"
  "py_or (dict_get reading_without_wear ''Process temperature [K]'')
     (dict_get reading_without_wear ''Process_temperature_K'') = PyFloat 308.6"
  "py_or (dict_get reading_without_wear ''Rotational speed [rpm]'')
     (dict_get reading_without_wear ''Rotational_speed_rpm'') = PyInt 1551"
  "py_or (dict_get reading_without_wear ''Torque [Nm]'')
     (dict_get reading_without_wear ''Torque_Nm'') = PyFloat 42.8"
  "py_or (dict_get reading_without_wear ''Tool wear [min]'')
     (dict_get reading_without_wear ''Tool_wear_min'') = PyNone"
  by (simp_all add: reading_without_wear_def dict_get_def py_or_def)

lemma preprocess_complete_example:
  "preprocess_input model_example (reading_bracketed (PyInt 150)) =
     Inr [PyFloat 298.1, PyFloat 308.6, PyInt 1551, PyFloat 42.8, PyInt 150, PyInt 2,
          PyFloat 10.5, PyFloat 66.3828]"
  by (simp add: preprocess_input_def build_features_def model_example_def
      reading_bracketed_def and_then_simps Let_def dict_get_def py_or_def)

text \<open>
  C6 (as the code has it). Let the value of a sensor be what the lookup under the
  bracketed key, falling back to the normalized key, resolves to. A reading without
  \<open>'Type'\<close> fails with a KeyError naming \<open>'Type'\<close>. When the type encodes and
  the air temperature, the process temperature, the rotational speed or the torque
  is missing under both spellings, preprocessing fails with a TypeError, which names
  no field. A missing tool wear is not detected: with the other four values numbers
  and the metadata columns among the eight feature names, preprocessing returns a
  vector, with None in every tool-wear column. For a complete input (the type
  encodes, the five values are numbers, the metadata columns are among the eight
  feature names) preprocessing returns a vector with one entry per name of
  \<open>feature_columns\<close>, in that order: entry \<open>i\<close> is the feature named by column
  \<open>i\<close>, among the five sensor values, the encoded type, the temperature
  difference (process minus air) and the power (torque times speed over 1000).
  Whenever preprocessing returns a vector, its entries are the features of the
  columns of \<open>feature_columns\<close>, in that order.
\<close>

theorem C6_preprocess_missing_fields:
  assumes "air = py_or (dict_get data ''Air temperature [K]'') (dict_get data ''Air_temperature_K'')"
    and "process = py_or (dict_get data ''Process temperature [K]'') (dict_get data ''Process_temperature_K'')"
    and "speed = py_or (dict_get data ''Rotational speed [rpm]'') (dict_get data ''Rotational_speed_rpm'')"
    and "torque = py_or (dict_get data ''Torque [Nm]'') (dict_get data ''Torque_Nm'')"
    and "wear = py_or (dict_get data ''Tool wear [min]'') (dict_get data ''Tool_wear_min'')"
  shows
  "(map_of data ''Type'' = None \<longrightarrow> preprocess_input mi data = Inl (KeyError ''Type'')) \<and>
   (map_of data ''Type'' = Some ty \<and> encoder_transform mi ty = Inr te \<and>
    (field_missing data ''Air temperature [K]'' ''Air_temperature_K'' \<or>
     field_missing data ''Process temperature [K]'' ''Process_temperature_K'' \<or>
     field_missing data ''Rotational speed [rpm]'' ''Rotational_speed_rpm'' \<or>
     field_missing data ''Torque [Nm]'' ''Torque_Nm'') \<longrightarrow>
      preprocess_input mi data = Inl TypeError) \<and>
   (map_of data ''Type'' = Some ty \<and> encoder_transform mi ty = Inr te \<and>
    is_number air \<and> is_number process \<and> is_number speed \<and> is_number torque \<and>
    field_missing data ''Tool wear [min]'' ''Tool_wear_min'' \<and>
    set (feature_columns mi) \<subseteq> set feature_names \<longrightarrow>
      (\<exists>w. preprocess_input mi data = Inr w \<and> length w = length (feature_columns mi) \<and>
           (\<forall>i<length (feature_columns mi).
              feature_columns mi ! i = ''Tool_wear_min'' \<longrightarrow> w ! i = PyNone))) \<and>
   (map_of data ''Type'' = Some ty \<and> encoder_transform mi ty = Inr te \<and>
    is_number air \<and> is_number process \<and> is_number speed \<and> is_number torque \<and>
    is_number wear \<and> set (feature_columns mi) \<subseteq> set feature_names \<longrightarrow>
      (\<exists>w temp_diff power.
           is_number temp_diff \<and> num_of temp_diff = num_of process - num_of air \<and>
           is_number power \<and> num_of power = num_of torque * num_of speed / 1000 \<and>
           preprocess_input mi data = Inr w \<and> length w = length (feature_columns mi) \<and>
           (\<forall>i<length (feature_columns mi).
              map_of [(''Air_temperature_K'', air), (''Process_temperature_K'', process),
                      (''Rotational_speed_rpm'', speed), (''Torque_Nm'', torque),
                      (''Tool_wear_min'', wear), (''Type_encoded'', PyInt te),
                      (''Temp_diff'', temp_diff), (''Power'', power)]
                (feature_columns mi ! i) = Some (w ! i)))) \<and>
   (preprocess_input mi data = Inr v \<longrightarrow>
      (\<exists>fs. build_features mi data = Inr fs \<and> length v = length (feature_columns mi) \<and>
            (\<forall>i<length (feature_columns mi).
               map_of fs (feature_columns mi ! i) = Some (v ! i))))"
proof (intro conjI impI)
  assume "map_of data ''Type'' = None"
  then show "preprocess_input mi data = Inl (KeyError ''Type'')"
    by (simp add: preprocess_input_def build_features_no_type and_then_simps)
next
  assume a: "map_of data ''Type'' = Some ty \<and> encoder_transform mi ty = Inr te \<and>
    (field_missing data ''Air temperature [K]'' ''Air_temperature_K'' \<or>
     field_missing data ''Process temperature [K]'' ''Process_temperature_K'' \<or>
     field_missing data ''Rotational speed [rpm]'' ''Rotational_speed_rpm'' \<or>
     field_missing data ''Torque [Nm]'' ''Torque_Nm'')"
  then have "\<not> is_number (py_or (dict_get data ''Air temperature [K]'') (dict_get data ''Air_temperature_K'')) \<or>
         \<not> is_number (py_or (dict_get data ''Process temperature [K]'') (dict_get data ''Process_temperature_K'')) \<or>
         \<not> is_number (py_or (dict_get data ''Rotational speed [rpm]'') (dict_get data ''Rotational_speed_rpm'')) \<or>
         \<not> is_number (py_or (dict_get data ''Torque [Nm]'') (dict_get data ''Torque_Nm''))"
    by (auto simp add: missing_resolves_None is_number_def)
  with a have "build_features mi data = Inl TypeError"
    by (intro build_features_type_error) auto
  then show "preprocess_input mi data = Inl TypeError"
    by (simp add: preprocess_input_def and_then_simps)
next
  assume a: "map_of data ''Type'' = Some ty \<and> encoder_transform mi ty = Inr te \<and>
    is_number air \<and> is_number process \<and> is_number speed \<and> is_number torque \<and>
    field_missing data ''Tool wear [min]'' ''Tool_wear_min'' \<and>
    set (feature_columns mi) \<subseteq> set feature_names"
  from a have none: "wear = PyNone"
    unfolding assms(5) by (simp add: missing_resolves_None)
  from a preprocess_complete [OF _ _ assms, of ty mi te]
  obtain w temp_diff power where
    w: "preprocess_input mi data = Inr w" "length w = length (feature_columns mi)" and
    each: "\<forall>i<length (feature_columns mi).
              map_of [(''Air_temperature_K'', air), (''Process_temperature_K'', process),
                      (''Rotational_speed_rpm'', speed), (''Torque_Nm'', torque),
                      (''Tool_wear_min'', wear), (''Type_encoded'', PyInt te),
                      (''Temp_diff'', temp_diff), (''Power'', power)]
                (feature_columns mi ! i) = Some (w ! i)"
    by blast
  have "\<forall>i<length (feature_columns mi).
      feature_columns mi ! i = ''Tool_wear_min'' \<longrightarrow> w ! i = PyNone"
    using each none by auto
  with w show "\<exists>w. preprocess_input mi data = Inr w \<and> length w = length (feature_columns mi) \<and>
      (\<forall>i<length (feature_columns mi). feature_columns mi ! i = ''Tool_wear_min'' \<longrightarrow> w ! i = PyNone)"
    by blast
next
  assume a: "map_of data ''Type'' = Some ty \<and> encoder_transform mi ty = Inr te \<and>
    is_number air \<and> is_number process \<and> is_number speed \<and> is_number torque \<and>
    is_number wear \<and> set (feature_columns mi) \<subseteq> set feature_names"
  with preprocess_complete [OF _ _ assms, of ty mi te]
  show "\<exists>w temp_diff power.
           is_number temp_diff \<and> num_of temp_diff = num_of process - num_of air \<and>
           is_number power \<and> num_of power = num_of torque * num_of speed / 1000 \<and>
           preprocess_input mi data = Inr w \<and> length w = length (feature_columns mi) \<and>
           (\<forall>i<length (feature_columns mi).
              map_of [(''Air_temperature_K'', air), (''Process_temperature_K'', process),
                      (''Rotational_speed_rpm'', speed), (''Torque_Nm'', torque),
                      (''Tool_wear_min'', wear), (''Type_encoded'', PyInt te),
                      (''Temp_diff'', temp_diff), (''Power'', power)]
                (feature_columns mi ! i) = Some (w ! i))"
    by blast
next
  assume "preprocess_input mi data = Inr v"
  then show "\<exists>fs. build_features mi data = Inr fs \<and> length v = length (feature_columns mi) \<and>
      (\<forall>i<length (feature_columns mi). map_of fs (feature_columns mi ! i) = Some (v ! i))"
    by (rule preprocess_order)
qed

theorem C6_preprocess_missing_fields_witness:
  "preprocess_input model_example [] = Inl (KeyError ''Type'') \<and>
   preprocess_input model_example reading_without_air = Inl TypeError \<and>
   (\<exists>w. preprocess_input model_example reading_without_wear = Inr w \<and>
        length w = length (feature_columns model_example) \<and>
        (\<forall>i<length (feature_columns model_example).
           feature_columns model_example ! i = ''Tool_wear_min'' \<longrightarrow> w ! i = PyNone)) \<and>
   (\<exists>w temp_diff power.
        num_of temp_diff = 308.6 - 298.1 \<and> num_of power = 42.8 * 1551 / 1000 \<and>
        preprocess_input model_example (reading_bracketed (PyInt 150)) = Inr w \<and>
        w = [PyFloat 298.1, PyFloat 308.6, PyInt 1551, PyFloat 42.8, PyInt 150, PyInt 2,
             PyFloat 10.5, PyFloat 66.3828] \<and>
        length w = length (feature_columns model_example) \<and>
        (\<forall>i<length (feature_columns model_example).
           map_of [(''Air_temperature_K'', PyFloat 298.1), (''Process_temperature_K'', PyFloat 308.6),
                   (''Rotational_speed_rpm'', PyInt 1551), (''Torque_Nm'', PyFloat 42.8),
                   (''Tool_wear_min'', PyInt 150), (''Type_encoded'', PyInt 2),
                   (''Temp_diff'', temp_diff), (''Power'', power)]
             (feature_columns model_example ! i) = Some (w ! i))) \<and>
   (\<exists>fs. build_features model_example (reading_bracketed (PyInt 150)) = Inr fs \<and>
         (\<forall>i<length (feature_columns model_example).
            map_of fs (feature_columns model_example ! i) =
              Some ([PyFloat 298.1, PyFloat 308.6, PyInt 1551, PyFloat 42.8, PyInt 150, PyInt 2,
                     PyFloat 10.5, PyFloat 66.3828] ! i)))"
proof -
  let ?v = "[PyFloat 298.1, PyFloat 308.6, PyInt 1551, PyFloat 42.8, PyInt 150, PyInt 2,
             PyFloat 10.5, PyFloat 66.3828]"
  have cols: "set (feature_columns model_example) \<subseteq> set feature_names"
    by (simp add: model_example_def feature_names_def)
  have enc: "encoder_transform model_example (PyStr ''M'') = Inr 2"
    by (simp add: model_example_def)
  have h1: "map_of ([] :: pydict) ''Type'' = None" by simp
  have h2: "map_of reading_without_air ''Type'' = Some (PyStr ''M'') \<and>
      encoder_transform model_example (PyStr ''M'') = Inr 2 \<and>
      (field_missing reading_without_air ''Air temperature [K]'' ''Air_temperature_K'' \<or>
       field_missing reading_without_air ''Process temperature [K]'' ''Process_temperature_K'' \<or>
       field_missing reading_without_air ''Rotational speed [rpm]'' ''Rotational_speed_rpm'' \<or>
       field_missing reading_without_air ''Torque [Nm]'' ''Torque_Nm'')"
    by (simp add: enc) (simp add: reading_without_air_def field_missing_def)
  have h3: "map_of reading_without_wear ''Type'' = Some (PyStr ''M'') \<and>
      encoder_transform model_example (PyStr ''M'') = Inr 2 \<and>
      is_number (PyFloat 298.1) \<and> is_number (PyFloat 308.6) \<and> is_number (PyInt 1551) \<and>
      is_number (PyFloat 42.8) \<and>
      field_missing reading_without_wear ''Tool wear [min]'' ''Tool_wear_min'' \<and>
      set (feature_columns model_example) \<subseteq> set feature_names"
    by (simp add: enc cols is_number_def) (simp add: reading_without_wear_def field_missing_def)
  have h4: "map_of (reading_bracketed (PyInt 150)) ''Type'' = Some (PyStr ''M'') \<and>
      encoder_transform model_example (PyStr ''M'') = Inr 2 \<and>
      is_number (PyFloat 298.1) \<and> is_number (PyFloat 308.6) \<and> is_number (PyInt 1551) \<and>
      is_number (PyFloat 42.8) \<and> is_number (PyInt 150) \<and>
      set (feature_columns model_example) \<subseteq> set feature_names"
    by (simp add: enc cols is_number_def) (simp add: reading_bracketed_def)
  note c1 = C6_preprocess_missing_fields [OF refl refl refl refl refl, of "[]" model_example]
  note c2 = C6_preprocess_missing_fields [OF refl refl refl refl refl, of reading_without_air model_example
      "PyStr ''M''" 2]
  note c3 = C6_preprocess_missing_fields [OF resolved_without_wear [symmetric], of model_example "PyStr ''M''" 2]
  note c4 = C6_preprocess_missing_fields [OF resolved_bracketed [symmetric], of model_example "PyStr ''M''" 2 ?v]
  from c1 h1 have a: "preprocess_input model_example [] = Inl (KeyError ''Type'')" by blast
  from c2 h2 have b: "preprocess_input model_example reading_without_air = Inl TypeError" by blast
  from c3 h3 have c: "\<exists>w. preprocess_input model_example reading_without_wear = Inr w \<and>
        length w = length (feature_columns model_example) \<and>
        (\<forall>i<length (feature_columns model_example).
           feature_columns model_example ! i = ''Tool_wear_min'' \<longrightarrow> w ! i = PyNone)"
    by blast
  from c4 h4 obtain w temp_diff power where
    n: "num_of temp_diff = num_of (PyFloat 308.6) - num_of (PyFloat 298.1)"
       "num_of power = num_of (PyFloat 42.8) * num_of (PyInt 1551) / 1000" and
    w: "preprocess_input model_example (reading_bracketed (PyInt 150)) = Inr w"
       "length w = length (feature_columns model_example)" and
    each: "\<forall>i<length (feature_columns model_example).
           map_of [(''Air_temperature_K'', PyFloat 298.1), (''Process_temperature_K'', PyFloat 308.6),
                   (''Rotational_speed_rpm'', PyInt 1551), (''Torque_Nm'', PyFloat 42.8),
                   (''Tool_wear_min'', PyInt 150), (''Type_encoded'', PyInt 2),
                   (''Temp_diff'', temp_diff), (''Power'', power)]
             (feature_columns model_example ! i) = Some (w ! i)"
    by blast
  from w(1) have wv: "w = ?v" by (simp add: preprocess_complete_example)
  from n have n': "num_of temp_diff = 308.6 - 298.1" "num_of power = 42.8 * 1551 / 1000"
    by (simp_all add: num_of_def)
  from n' w wv each have d: "\<exists>w temp_diff power.
        num_of temp_diff = 308.6 - 298.1 \<and> num_of power = 42.8 * 1551 / 1000 \<and>
        preprocess_input model_example (reading_bracketed (PyInt 150)) = Inr w \<and>
        w = ?v \<and>
        length w = length (feature_columns model_example) \<and>
        (\<forall>i<length (feature_columns model_example).
           map_of [(''Air_temperature_K'', PyFloat 298.1), (''Process_temperature_K'', PyFloat 308.6),
                   (''Rotational_speed_rpm'', PyInt 1551), (''Torque_Nm'', PyFloat 42.8),
                   (''Tool_wear_min'', PyInt 150), (''Type_encoded'', PyInt 2),
                   (''Temp_diff'', temp_diff), (''Power'', power)]
             (feature_columns model_example ! i) = Some (w ! i))"
    by blast
  from c4 preprocess_complete_example have e: "\<exists>fs. build_features model_example (reading_bracketed (PyInt 150)) = Inr fs \<and>
         (\<forall>i<length (feature_columns model_example).
            map_of fs (feature_columns model_example ! i) = Some (?v ! i))"
    by blast
  from a b c d e show ?thesis by blast
qed

theorem C6_missing_wear_not_rejected:
  "map_of reading_without_wear ''Tool wear [min]'' = None \<and>
   map_of reading_without_wear ''Tool_wear_min'' = None \<and>
   preprocess_input model_example reading_without_wear =
     Inr [PyFloat 298.1, PyFloat 308.6, PyInt 1551, PyFloat 42.8, PyNone, PyInt 2,
          PyFloat 10.5, PyFloat 66.3828] \<and>
   preprocess_input model_example reading_without_air = Inl TypeError"
  by (simp add: preprocess_no_wear preprocess_no_air) (simp add: reading_without_wear_def)

text \<open>
  C7 (where the code departs from it). A tool wear of zero under the bracketed
  spelling is falsy, so the lookup falls through to the normalized key, which the
  reading does not have: the tool-wear feature is None. The same zero under the
  normalized spelling is kept. The two spellings of one reading give different
  vectors.
\<close>

theorem C7_zero_wear_spellings_differ:
  "preprocess_input model_example (reading_bracketed (PyInt 0)) =
     Inr [PyFloat 298.1, PyFloat 308.6, PyInt 1551, PyFloat 42.8, PyNone, PyInt 2,
          PyFloat 10.5, PyFloat 66.3828] \<and>
   preprocess_input model_example (reading_normalized (PyInt 0)) =
     Inr [PyFloat 298.1, PyFloat 308.6, PyInt 1551, PyFloat 42.8, PyInt 0, PyInt 2,
          PyFloat 10.5, PyFloat 66.3828] \<and>
   preprocess_input model_example (reading_bracketed (PyInt 150)) =
     preprocess_input model_example (reading_normalized (PyInt 150))"
  by (simp add: preprocess_input_def build_features_def model_example_def
      reading_bracketed_def reading_normalized_def and_then_simps Let_def dict_get_def py_or_def)

end
